theory Spec2Isabelle
  imports Main
begin

section \<open>Data model (app/database/models.py)\<close>

text \<open>
  Python integers are unbounded, so identifiers and amounts are \<open>int\<close>. A nullable column
  is an \<open>option\<close>. Timestamps are abstract clock readings; every operation receives the
  reading of \<open>datetime.now\<close> as the argument \<open>now\<close>.
\<close>

type_synonym datetime = nat

datatype UserRole = ADMIN | RESPONSIBLE | USER

datatype Department = NETWORK | INSTITUTE

datatype CardType = ASIA | ATHIR

datatype CardStatus = AVAILABLE | RESERVED | SENT | ARCHIVED

datatype InventoryAction = ADD | RESERVE | SEND | RESTORE | THRESHOLD_ALERT

datatype RequestStatus =
  PENDING_MANAGER | PENDING_ACCOUNTING | APPROVED | REJECTED | CANCELLED

datatype RequestType = FIXED | CUSTOM

record User =
  user_id :: int
  full_name :: string
  phone :: string
  telegram_id :: "int option"
  role :: UserRole
  department :: "Department option"
  manager_id :: "int option"
  line_expiry :: "datetime option"
  line_type :: "CardType option"
  can_approve_directly :: bool
  is_active :: bool

record Card =
  card_id :: int
  card_type :: CardType
  card_amount :: int
  card_status :: CardStatus
  image_file_id :: "string option"
  image_path :: "string option"
  serial_number :: "string option"
  added_by_id :: "int option"
  added_at :: datetime

record CardInventoryLog =
  log_id :: int
  log_card_id :: int
  log_actor_id :: "int option"
  log_action :: InventoryAction
  log_note :: "string option"
  log_created_at :: datetime

record RechargeRequest =
  req_id :: int
  requester_id :: int
  responsible_id :: "int option"
  accounting_id :: "int option"
  approver_id :: "int option"
  request_type :: RequestType
  req_amount :: int
  req_status :: RequestStatus
  final_card_id :: "int option"
  req_card_type :: "CardType option"
  reason :: "string option"
  created_at :: datetime
  updated_at :: datetime

record RequestStatusHistory =
  hist_id :: int
  hist_request_id :: int
  hist_actor_id :: "int option"
  from_status :: "RequestStatus option"
  to_status :: RequestStatus
  hist_note :: "string option"
  hist_created_at :: datetime

text \<open>
  The persisted state: one list of rows per table, in insertion order. An operation runs in
  a session of its own; what it returns as the database is what has been committed, so an
  operation that raises before \<open>session.commit()\<close> returns the database it was given.
\<close>

record Database =
  cards :: "Card list"
  card_logs :: "CardInventoryLog list"
  requests :: "RechargeRequest list"
  history :: "RequestStatusHistory list"

text \<open>
  The exceptions that reach a caller: \<open>sqlalchemy.exc.NoResultFound\<close>, Python's
  \<open>ValueError\<close>, \<open>sqlalchemy.exc.IntegrityError\<close>, which a flush raises when a row
  violates a table constraint, Python's \<open>OverflowError\<close>, which the SQLite driver raises
  when a statement binds an integer that the store cannot hold, and an exception of the
  Telegram client (\<open>aiogram.exceptions.TelegramAPIError\<close>).
\<close>

datatype error = NoResultFound | ValueError | IntegrityError | OverflowError | TelegramAPIError

text \<open>
  The store is SQLite (\<open>sqlite+aiosqlite\<close>, alembic/env.py): an \<open>Integer\<close> column holds a
  signed 64-bit value, and a flush that binds a Python integer outside that range raises
  \<open>OverflowError\<close> before the statement runs. The amounts are the callers' input and are
  checked against the range; identifiers are keys that the store issued.
\<close>

definition integer_min :: int where
  "integer_min = - 9223372036854775808"

definition integer_max :: int where
  "integer_max = 9223372036854775807"

definition fits_integer :: "int \<Rightarrow> bool" where
  "fits_integer n = (integer_min \<le> n \<and> n \<le> integer_max)"

text \<open>An integer primary key left unset is assigned on insert: one more than the largest.\<close>

definition fresh_id :: "int list \<Rightarrow> int" where
  "fresh_id ids = 1 + foldr max ids 0"

definition empty_db :: Database where
  "empty_db = \<lparr>cards = [], card_logs = [], requests = [], history = []\<rparr>"

section \<open>Card inventory (app/services/cards.py)\<close>

text \<open>\<open>CardService._log\<close>: add one inventory-log row to the session.\<close>

definition card_log ::
  "int \<Rightarrow> InventoryAction \<Rightarrow> int option \<Rightarrow> string option \<Rightarrow> datetime \<Rightarrow> Database \<Rightarrow> Database" where
  "card_log cid action actor note now db =
     db\<lparr>card_logs := card_logs db @
        [\<lparr>log_id = fresh_id (map log_id (card_logs db)), log_card_id = cid,
          log_actor_id = actor, log_action = action, log_note = note,
          log_created_at = now\<rparr>]\<rparr>"

text \<open>\<open>session.get(Card, card_id)\<close>: the row with that primary key, if any.\<close>

definition get_card :: "int \<Rightarrow> Database \<Rightarrow> Card option" where
  "get_card cid db = find (\<lambda>c. card_id c = cid) (cards db)"

text \<open>The UPDATE a flush emits for a card object that was modified: the row with its primary key
  takes the object's values.\<close>

definition flush_card :: "Card \<Rightarrow> Database \<Rightarrow> Database" where
  "flush_card crd db =
     db\<lparr>cards := map (\<lambda>c. if card_id c = card_id crd then crd else c) (cards db)\<rparr>"

text \<open>
  The table constraints of \<open>Card.__table_args__\<close>, checked when a row is inserted, once
  its values have been bound.
\<close>

definition ck_card_amount_positive :: "Card \<Rightarrow> bool" where
  "ck_card_amount_positive c = (card_amount c > 0)"

definition uq_card_serial :: "Card \<Rightarrow> Card list \<Rightarrow> bool" where
  "uq_card_serial c rows =
     (case serial_number c of None \<Rightarrow> True
      | Some s \<Rightarrow> Some s \<notin> set (map serial_number rows))"

definition add_card ::
  "CardType \<Rightarrow> int \<Rightarrow> int option \<Rightarrow> string option \<Rightarrow> string option \<Rightarrow> string option
     \<Rightarrow> datetime \<Rightarrow> Database \<Rightarrow> (error + Card) \<times> Database" where
  "add_card ctype amount actor file_id path serial now db =
     (if file_id = None \<and> serial = None then (Inl ValueError, db)
      else
        let crd = \<lparr>card_id = fresh_id (map card_id (cards db)), card_type = ctype,
                     card_amount = amount, card_status = AVAILABLE, image_file_id = file_id,
                     image_path = path, serial_number = serial, added_by_id = actor,
                     added_at = now\<rparr>
        in if \<not> fits_integer amount then (Inl OverflowError, db)
           else if \<not> (ck_card_amount_positive crd \<and> uq_card_serial crd (cards db))
           then (Inl IntegrityError, db)
           else (Inr crd,
                 card_log (card_id crd) ADD actor None now (db\<lparr>cards := cards db @ [crd]\<rparr>)))"

text \<open>
  \<open>available_match\<close> is the WHERE clause that \<open>list_available\<close>, \<open>take_first_available\<close>
  and \<open>count_available\<close> share; \<open>available_rows\<close> is the query of the first two, ordered
  by primary key. \<open>locked\<close> is the set of
  primary keys of the rows that other transactions in flight hold a lock on:
  \<open>with_for_update(skip_locked=True)\<close> leaves those rows out of the result.
\<close>

definition available_match :: "CardType \<Rightarrow> int \<Rightarrow> Card \<Rightarrow> bool" where
  "available_match ctype amount c =
     (card_type c = ctype \<and> card_amount c = amount \<and> card_status c = AVAILABLE)"

definition available_rows :: "CardType \<Rightarrow> int \<Rightarrow> int set \<Rightarrow> Database \<Rightarrow> Card list" where
  "available_rows ctype amount locked db =
     sort_key card_id
       (filter (\<lambda>c. available_match ctype amount c \<and> card_id c \<notin> locked) (cards db))"

definition list_available :: "CardType \<Rightarrow> int \<Rightarrow> Database \<Rightarrow> Card list" where
  "list_available ctype amount db = available_rows ctype amount {} db"

definition take_first_available ::
  "CardType \<Rightarrow> int \<Rightarrow> int option \<Rightarrow> int set \<Rightarrow> datetime \<Rightarrow> Database
     \<Rightarrow> (error + Card) \<times> Database" where
  "take_first_available ctype amount actor locked now db =
     (case available_rows ctype amount locked db of
        [] \<Rightarrow> (Inl NoResultFound, db)
      | crd # _ \<Rightarrow>
          (let crd' = crd\<lparr>card_status := RESERVED\<rparr>
           in (Inr crd', card_log (card_id crd') RESERVE actor None now (flush_card crd' db))))"

definition count_available :: "CardType \<Rightarrow> int \<Rightarrow> Database \<Rightarrow> nat" where
  "count_available ctype amount db =
     length (filter (available_match ctype amount) (cards db))"

definition reserve_card ::
  "int \<Rightarrow> int option \<Rightarrow> datetime \<Rightarrow> Database \<Rightarrow> (error + Card) \<times> Database" where
  "reserve_card cid actor now db =
     (case get_card cid db of
        None \<Rightarrow> (Inl NoResultFound, db)
      | Some crd \<Rightarrow>
          if card_status crd \<noteq> AVAILABLE then (Inl NoResultFound, db)
          else (let crd' = crd\<lparr>card_status := RESERVED\<rparr>
                in (Inr crd', card_log (card_id crd') RESERVE actor None now (flush_card crd' db))))"

definition mark_sent ::
  "int \<Rightarrow> int option \<Rightarrow> datetime \<Rightarrow> Database \<Rightarrow> (error + Card) \<times> Database" where
  "mark_sent cid actor now db =
     (case get_card cid db of
        None \<Rightarrow> (Inl NoResultFound, db)
      | Some crd \<Rightarrow>
          (let crd' = crd\<lparr>card_status := SENT\<rparr>
           in (Inr crd', card_log (card_id crd') SEND actor None now (flush_card crd' db))))"

definition restore_card ::
  "int \<Rightarrow> int option \<Rightarrow> datetime \<Rightarrow> Database \<Rightarrow> (error + Card) \<times> Database" where
  "restore_card cid actor now db =
     (case get_card cid db of
        None \<Rightarrow> (Inl NoResultFound, db)
      | Some crd \<Rightarrow>
          (let crd' = crd\<lparr>card_status := AVAILABLE\<rparr>
           in (Inr crd', card_log (card_id crd') RESTORE actor None now (flush_card crd' db))))"

section \<open>Recharge requests (app/services/requests.py)\<close>

text \<open>\<open>RequestService._log\<close>: add one status-history row to the session.\<close>

definition request_log ::
  "int \<Rightarrow> int option \<Rightarrow> RequestStatus \<Rightarrow> RequestStatus option \<Rightarrow> string option \<Rightarrow> datetime
     \<Rightarrow> Database \<Rightarrow> Database" where
  "request_log rid actor to_s from_s note now db =
     db\<lparr>history := history db @
        [\<lparr>hist_id = fresh_id (map hist_id (history db)), hist_request_id = rid,
          hist_actor_id = actor, from_status = from_s, to_status = to_s, hist_note = note,
          hist_created_at = now\<rparr>]\<rparr>"

text \<open>\<open>session.get(RechargeRequest, request_id)\<close>, which is also \<open>get_request\<close>.\<close>

definition get_request :: "int \<Rightarrow> Database \<Rightarrow> RechargeRequest option" where
  "get_request rid db = find (\<lambda>r. req_id r = rid) (requests db)"

definition flush_request :: "RechargeRequest \<Rightarrow> Database \<Rightarrow> Database" where
  "flush_request request db =
     db\<lparr>requests := map (\<lambda>r. if req_id r = req_id request then request else r) (requests db)\<rparr>"

definition ck_recharge_amount_positive :: "RechargeRequest \<Rightarrow> bool" where
  "ck_recharge_amount_positive r = (req_amount r > 0)"

definition create_request ::
  "int \<Rightarrow> int option \<Rightarrow> int \<Rightarrow> RequestType \<Rightarrow> RequestStatus \<Rightarrow> string option
     \<Rightarrow> CardType option \<Rightarrow> datetime \<Rightarrow> Database \<Rightarrow> (error + RechargeRequest) \<times> Database" where
  "create_request requester responsible amount rtype status note ctype now db =
     (let request = \<lparr>req_id = fresh_id (map req_id (requests db)), requester_id = requester,
                      responsible_id = responsible, accounting_id = None, approver_id = None,
                      request_type = rtype, req_amount = amount, req_status = status,
                      final_card_id = None, req_card_type = ctype, reason = None,
                      created_at = now, updated_at = now\<rparr>
      in if \<not> fits_integer amount then (Inl OverflowError, db)
         else if \<not> ck_recharge_amount_positive request then (Inl IntegrityError, db)
         else (Inr request,
               request_log (req_id request) (Some requester) status None note now
                 (db\<lparr>requests := requests db @ [request]\<rparr>)))"

definition set_status ::
  "int \<Rightarrow> int option \<Rightarrow> RequestStatus \<Rightarrow> string option \<Rightarrow> datetime \<Rightarrow> Database
     \<Rightarrow> (error + RechargeRequest) \<times> Database" where
  "set_status rid actor new_status note now db =
     (case get_request rid db of
        None \<Rightarrow> (Inl NoResultFound, db)
      | Some request \<Rightarrow>
          (let previous_status = req_status request;
               request' = request\<lparr>req_status := new_status, updated_at := now\<rparr>
           in (Inr request',
               request_log (req_id request') actor new_status (Some previous_status) note now
                 (flush_request request' db))))"

text \<open>
  \<open>updated_at\<close> has \<open>onupdate\<close>: it is refreshed whenever the flush emits an UPDATE for
  the row, which it does when an assigned attribute has a new value. \<open>attach_card\<close> and
  \<open>set_approver\<close> assign one attribute each and leave \<open>updated_at\<close> to that rule.
\<close>

definition attach_card ::
  "int \<Rightarrow> int \<Rightarrow> int option \<Rightarrow> datetime \<Rightarrow> Database
     \<Rightarrow> (error + RechargeRequest) \<times> Database" where
  "attach_card rid cid actor now db =
     (case get_request rid db of
        None \<Rightarrow> (Inl NoResultFound, db)
      | Some request \<Rightarrow>
          (let request' = (if final_card_id request = Some cid then request
                           else request\<lparr>final_card_id := Some cid, updated_at := now\<rparr>)
           in (Inr request',
               request_log (req_id request') actor (req_status request')
                 (Some (req_status request')) (Some ''Card assigned'') now
                 (flush_request request' db))))"

definition set_approver ::
  "int \<Rightarrow> int \<Rightarrow> datetime \<Rightarrow> Database \<Rightarrow> (error + RechargeRequest) \<times> Database" where
  "set_approver rid approver now db =
     (case get_request rid db of
        None \<Rightarrow> (Inl NoResultFound, db)
      | Some request \<Rightarrow>
          (let request' = (if approver_id request = Some approver then request
                           else request\<lparr>approver_id := Some approver, updated_at := now\<rparr>)
           in (Inr request', flush_request request' db)))"

text \<open>The status-history rows of one request, oldest first.\<close>

definition history_of :: "int \<Rightarrow> Database \<Rightarrow> RequestStatusHistory list" where
  "history_of rid db = filter (\<lambda>h. hist_request_id h = rid) (history db)"

section \<open>Callers (app/handlers)\<close>

text \<open>
  The handlers talk to Telegram and to the services. The model keeps what they do to the
  database and the reply they end with; the identities they look up (\<open>get_current_user\<close>,
  \<open>users.get_by_id\<close>) and what Telegram answers to the calls of the delivery are arguments.
\<close>

subsection \<open>\<open>send_card_to_chat\<close> (handlers/requests.py)\<close>

text \<open>
  What a call of the bot does: it succeeds, it raises \<open>TelegramBadRequest\<close>, or it raises
  another exception (the chat blocked the bot, the network failed).
\<close>

datatype bot_call = CallOk | CallBadRequest | CallFailed

text \<open>
  The answers to the three calls \<open>send_card_to_chat\<close> can make, and whether the image file
  of the card is on disk.
\<close>

record telegram =
  photo_by_id :: bot_call
  file_exists :: bool
  photo_by_path :: bot_call
  text_message :: bot_call

text \<open>A string that Python takes for true: present and not empty.\<close>

definition truthy :: "string option \<Rightarrow> bool" where
  "truthy v = (case v of None \<Rightarrow> False | Some t \<Rightarrow> t \<noteq> [])"

text \<open>
  The photo is sent by file id first; there only \<open>TelegramBadRequest\<close> is caught, so any
  other exception leaves the function. Then the photo is sent from disk, then the text
  alone; both catch every exception. The result is whether one of the calls succeeded.
\<close>

definition send_card_to_chat :: "Card \<Rightarrow> telegram \<Rightarrow> error + bool" where
  "send_card_to_chat crd tg =
     (if truthy (image_file_id crd) \<and> photo_by_id tg = CallOk then Inr True
      else if truthy (image_file_id crd) \<and> photo_by_id tg = CallFailed then Inl TelegramAPIError
      else if truthy (image_path crd) \<and> file_exists tg \<and> photo_by_path tg = CallOk then Inr True
      else if text_message tg = CallOk then Inr True
      else Inr False)"

subsection \<open>\<open>_process_request\<close> (handlers/requests.py)\<close>

text \<open>The FSM data the handler reads with \<open>data.get\<close>; a missing key is \<open>None\<close>.\<close>

record request_form =
  form_amount :: "int option"
  form_origin :: "string option"
  form_request_type :: "RequestType option"
  form_card_type :: "CardType option"

datatype process_result =
  UserNotIdentified | InvalidAmount | NoResponsibleDefined
  | RequestCreated RechargeRequest | ProcessRaised error

definition submit_request ::
  "(error + RechargeRequest) \<times> Database \<Rightarrow> process_result \<times> Database" where
  "submit_request res =
     (case res of (Inl e, db') \<Rightarrow> (ProcessRaised e, db')
      | (Inr request, db') \<Rightarrow> (RequestCreated request, db'))"

definition process_request ::
  "User option \<Rightarrow> request_form \<Rightarrow> datetime \<Rightarrow> Database \<Rightarrow> process_result \<times> Database" where
  "process_request current_user data now db =
     (case current_user of
        None \<Rightarrow> (UserNotIdentified, db)
      | Some user \<Rightarrow>
          (let amount = (case form_amount data of None \<Rightarrow> 0 | Some a \<Rightarrow> a);
               origin = (case form_origin data of None \<Rightarrow> ''user'' | Some s \<Rightarrow> s);
               rtype = (case form_request_type data of None \<Rightarrow> FIXED | Some t \<Rightarrow> t);
               ctype = (if origin = ''admin'' \<and> form_card_type data \<noteq> None
                        then form_card_type data else line_type user)
           in if amount \<le> 0 then (InvalidAmount, db)
              else if role user = USER then
                (case manager_id user of
                   None \<Rightarrow> (NoResponsibleDefined, db)
                 | Some m \<Rightarrow>
                     submit_request
                       (create_request (user_id user) (Some m) amount rtype PENDING_MANAGER
                          None ctype now db))
              else if role user = RESPONSIBLE then
                submit_request
                  (create_request (user_id user) (Some (user_id user)) amount rtype
                     PENDING_ACCOUNTING None ctype now db)
              else
                submit_request
                  (create_request (user_id user) None amount rtype PENDING_ACCOUNTING
                     None ctype now db)))"

subsection \<open>\<open>handle_manager_decision\<close> (handlers/requests.py)\<close>

text \<open>\<open>_accounting_options\<close>: the card types, in the order of the enum, that have stock.\<close>

primrec accounting_options_loop :: "CardType list \<Rightarrow> int \<Rightarrow> Database \<Rightarrow> (CardType \<times> nat) list" where
  "accounting_options_loop [] amount db = []"
| "accounting_options_loop (t # ts) amount db =
     (let n = count_available t amount db
      in (if n \<noteq> 0 then [(t, n)] else []) @ accounting_options_loop ts amount db)"

definition accounting_options :: "int \<Rightarrow> Database \<Rightarrow> (CardType \<times> nat) list" where
  "accounting_options amount db = accounting_options_loop [ASIA, ATHIR] amount db"

datatype manager_reply =
  AccountNotFound | RequestNotFound | NotAllowed | AlreadyReviewed
  | ForwardedToAccounting | RequestRejected | UnknownAction
  | DirectSendNotPermitted | NoSuitableCard | InventoryExhausted
  | RequesterNotOnTelegram | CardSendFailed | CardSentToRequester
  | ManagerRaised error

text \<open>A Telegram id that Python takes for false: \<open>None\<close> or \<open>0\<close>.\<close>

definition no_telegram :: "User option \<Rightarrow> bool" where
  "no_telegram u = (case u of None \<Rightarrow> True
                    | Some usr \<Rightarrow> telegram_id usr = None \<or> telegram_id usr = Some 0)"

text \<open>The branch \<open>action == "send"\<close>, after the permission check.\<close>

definition manager_direct_send ::
  "User \<Rightarrow> RechargeRequest \<Rightarrow> User option \<Rightarrow> telegram \<Rightarrow> int set \<Rightarrow> datetime \<Rightarrow> Database
     \<Rightarrow> manager_reply \<times> Database" where
  "manager_direct_send manager request requester tg locked now db =
     (case accounting_options (req_amount request) db of
        [] \<Rightarrow> (NoSuitableCard, db)
      | (ctype, _) # _ \<Rightarrow>
        (case take_first_available ctype (req_amount request) (Some (user_id manager)) locked now db of
           (Inl _, db1) \<Rightarrow> (InventoryExhausted, db1)
         | (Inr crd, db1) \<Rightarrow>
           (case attach_card (req_id request) (card_id crd) (Some (user_id manager)) now db1 of
              (Inl e, db2) \<Rightarrow> (ManagerRaised e, db2)
            | (Inr _, db2) \<Rightarrow>
              (case set_approver (req_id request) (user_id manager) now db2 of
                 (Inl e, db3) \<Rightarrow> (ManagerRaised e, db3)
               | (Inr _, db3) \<Rightarrow>
                 (case set_status (req_id request) (Some (user_id manager)) APPROVED None now db3 of
                    (Inl e, db4) \<Rightarrow> (ManagerRaised e, db4)
                  | (Inr _, db4) \<Rightarrow>
                      if no_telegram requester then (RequesterNotOnTelegram, db4)
                      else
                        (case send_card_to_chat crd tg of
                           Inl e \<Rightarrow> (ManagerRaised e, db4)
                         | Inr card_sent \<Rightarrow>
                             if \<not> card_sent then (CardSendFailed, db4)
                             else (case mark_sent (card_id crd) (Some (user_id manager)) now db4 of
                                     (Inl e, db5) \<Rightarrow> (ManagerRaised e, db5)
                                   | (Inr _, db5) \<Rightarrow> (CardSentToRequester, db5))))))))"

definition simple_decision ::
  "manager_reply \<Rightarrow> (error + RechargeRequest) \<times> Database \<Rightarrow> manager_reply \<times> Database" where
  "simple_decision reply res =
     (case res of (Inl e, db') \<Rightarrow> (ManagerRaised e, db') | (Inr _, db') \<Rightarrow> (reply, db'))"

definition handle_manager_decision ::
  "string \<Rightarrow> int \<Rightarrow> User option \<Rightarrow> User option \<Rightarrow> telegram \<Rightarrow> int set \<Rightarrow> datetime \<Rightarrow> Database
     \<Rightarrow> manager_reply \<times> Database" where
  "handle_manager_decision action request_id current_user requester tg locked now db =
     (case current_user of
        None \<Rightarrow> (AccountNotFound, db)
      | Some manager \<Rightarrow>
        (case get_request request_id db of
           None \<Rightarrow> (RequestNotFound, db)
         | Some request \<Rightarrow>
             if responsible_id request \<noteq> Some (user_id manager) then (NotAllowed, db)
             else if req_status request \<noteq> PENDING_MANAGER then (AlreadyReviewed, db)
             else if action = ''approve'' then
               simple_decision ForwardedToAccounting
                 (set_status request_id (Some (user_id manager)) PENDING_ACCOUNTING None now db)
             else if action = ''send'' then
               (if \<not> can_approve_directly manager then (DirectSendNotPermitted, db)
                else manager_direct_send manager request requester tg locked now db)
             else if action = ''reject'' then
               simple_decision RequestRejected
                 (set_status request_id (Some (user_id manager)) REJECTED None now db)
             else (UnknownAction, db)))"

subsection \<open>Direct sends (handlers/admin.py, handlers/responsible.py)\<close>

datatype send_reply =
  OutOfStock | DeliveryFailed | RegistrationFailed | DirectSendDone | SendRaised error

text \<open>
  The registration of a direct send, the body of the handlers' \<open>try\<close>: any exception in it
  is caught by \<open>except Exception\<close>, so what matters is whether it went through and what it
  committed on the way. The approver is recorded when \<open>approver\<close> is given.
\<close>

definition register_direct_send ::
  "int \<Rightarrow> int option \<Rightarrow> Card \<Rightarrow> int option \<Rightarrow> int option \<Rightarrow> string \<Rightarrow> datetime \<Rightarrow> Database
     \<Rightarrow> bool \<times> Database" where
  "register_direct_send target responsible crd actor approver note now db =
     (case create_request target responsible (card_amount crd) FIXED PENDING_MANAGER None
             (Some (card_type crd)) now db of
        (Inl _, db1) \<Rightarrow> (False, db1)
      | (Inr request, db1) \<Rightarrow>
        (case attach_card (req_id request) (card_id crd) actor now db1 of
           (Inl _, db2) \<Rightarrow> (False, db2)
         | (Inr _, db2) \<Rightarrow>
           (case set_status (req_id request) actor APPROVED (Some note) now db2 of
              (Inl _, db3) \<Rightarrow> (False, db3)
            | (Inr _, db3) \<Rightarrow>
              (case approver of
                 None \<Rightarrow> (True, db3)
               | Some a \<Rightarrow>
                 (case set_approver (req_id request) a now db3 of
                    (Inl _, db4) \<Rightarrow> (False, db4)
                  | (Inr _, db4) \<Rightarrow> (True, db4))))))"

text \<open>
  What the two direct-send handlers share, from \<open>take_first_available\<close> to \<open>mark_sent\<close>.
  The delivery is not inside a \<open>try\<close>: an exception of \<open>send_card_to_chat\<close> leaves the
  handler at once, before \<open>restore_card\<close>.
\<close>

definition direct_send ::
  "User \<Rightarrow> int option \<Rightarrow> int option \<Rightarrow> int option \<Rightarrow> string \<Rightarrow> CardType \<Rightarrow> int \<Rightarrow> telegram
     \<Rightarrow> int set \<Rightarrow> datetime \<Rightarrow> Database \<Rightarrow> send_reply \<times> Database" where
  "direct_send target_user responsible actor approver note ctype amount tg locked now db =
     (case take_first_available ctype amount actor locked now db of
        (Inl _, db1) \<Rightarrow> (OutOfStock, db1)
      | (Inr crd, db1) \<Rightarrow>
        (case send_card_to_chat crd tg of
           Inl e \<Rightarrow> (SendRaised e, db1)
         | Inr sent \<Rightarrow>
             if \<not> sent then
               (case restore_card (card_id crd) actor now db1 of
                  (Inl e, db2) \<Rightarrow> (SendRaised e, db2)
                | (Inr _, db2) \<Rightarrow> (DeliveryFailed, db2))
             else
               (case register_direct_send (user_id target_user) responsible crd actor approver note now db1 of
                  (False, db2) \<Rightarrow>
                    (case restore_card (card_id crd) actor now db2 of
                       (Inl e, db3) \<Rightarrow> (SendRaised e, db3)
                     | (Inr _, db3) \<Rightarrow> (RegistrationFailed, db3))
                | (True, db2) \<Rightarrow>
                    (case mark_sent (card_id crd) actor now db2 of
                       (Inl e, db3) \<Rightarrow> (SendRaised e, db3)
                     | (Inr _, db3) \<Rightarrow> (DirectSendDone, db3)))))"

text \<open>
  \<open>admin_send_card_amount\<close>, once the target user is known to be reachable: the actor is
  the operator if there is one, and the approver is recorded when \<open>actor_id\<close> is true for Python.
\<close>

definition admin_send_card_amount ::
  "User option \<Rightarrow> User \<Rightarrow> CardType \<Rightarrow> int \<Rightarrow> telegram \<Rightarrow> int set \<Rightarrow> datetime \<Rightarrow> Database
     \<Rightarrow> send_reply \<times> Database" where
  "admin_send_card_amount operator target_user ctype amount tg locked now db =
     (let actor_id = (case operator of None \<Rightarrow> None | Some u \<Rightarrow> Some (user_id u))
      in direct_send target_user None actor_id
           (if actor_id = None \<or> actor_id = Some 0 then None else actor_id)
           ''Direct admin send'' ctype amount tg locked now db)"

text \<open>\<open>responsible_send_card_amount\<close>, the branch \<open>can_direct\<close>.\<close>

definition responsible_send_card_amount ::
  "User \<Rightarrow> User \<Rightarrow> CardType \<Rightarrow> int \<Rightarrow> telegram \<Rightarrow> int set \<Rightarrow> datetime \<Rightarrow> Database
     \<Rightarrow> send_reply \<times> Database" where
  "responsible_send_card_amount responsible_user target_user ctype amount tg locked now db =
     direct_send target_user (Some (user_id responsible_user)) (Some (user_id responsible_user))
       (Some (user_id responsible_user)) ''Direct responsible send'' ctype amount tg locked now db"

section \<open>Sequences of calls on the request service\<close>

text \<open>
  The calls that change a request, as values, so that any sequence of them can be run. Each
  call comes with the clock reading at which it runs. A call that raises leaves the
  database as it was, and the sequence goes on with the next call.
\<close>

datatype request_call =
  CreateRequest int "int option" int RequestType RequestStatus "string option" "CardType option"
  | SetStatus int "int option" RequestStatus "string option"
  | AttachCard int int "int option"
  | SetApprover int int

fun perform :: "request_call \<Rightarrow> datetime \<Rightarrow> Database \<Rightarrow> Database" where
  "perform (CreateRequest requester responsible amount rtype status note ctype) now db =
     snd (create_request requester responsible amount rtype status note ctype now db)"
| "perform (SetStatus rid actor new_status note) now db =
     snd (set_status rid actor new_status note now db)"
| "perform (AttachCard rid cid actor) now db = snd (attach_card rid cid actor now db)"
| "perform (SetApprover rid approver) now db = snd (set_approver rid approver now db)"

fun run_calls :: "(request_call \<times> datetime) list \<Rightarrow> Database \<Rightarrow> Database" where
  "run_calls [] db = db"
| "run_calls ((c, now) # cs) db = run_calls cs (perform c now db)"

text \<open>
  The status history of every request is non-empty, starts with a row that has no
  \<open>from_status\<close>, and ends with a row whose \<open>to_status\<close> is the status of the request.
\<close>

definition history_reconstructs :: "Database \<Rightarrow> bool" where
  "history_reconstructs db =
     (\<forall>r \<in> set (requests db).
        history_of (req_id r) db \<noteq> []
        \<and> from_status (hd (history_of (req_id r) db)) = None
        \<and> to_status (last (history_of (req_id r) db)) = req_status r)"

text \<open>The foreign key of \<open>RequestStatusHistory.request_id\<close>: every row belongs to a request.\<close>

definition history_refs :: "Database \<Rightarrow> bool" where
  "history_refs db = (\<forall>h \<in> set (history db). hist_request_id h \<in> req_id ` set (requests db))"

section \<open>Example states\<close>

text \<open>
  A small inventory and one pending request, used to run the operations on concrete input:
  two available ASIA cards of 5000 and one ATHIR card of 1000 that is already sent, and a
  request of user 3 waiting for the manager, user 2.
\<close>

definition card_a :: Card where
  "card_a = \<lparr>card_id = 1, card_type = ASIA, card_amount = 5000, card_status = AVAILABLE,
              image_file_id = Some ''photo-1'', image_path = None, serial_number = None,
              added_by_id = Some 1, added_at = 10\<rparr>"

definition card_b :: Card where
  "card_b = \<lparr>card_id = 2, card_type = ASIA, card_amount = 5000, card_status = AVAILABLE,
              image_file_id = None, image_path = None, serial_number = Some ''7731'',
              added_by_id = Some 1, added_at = 11\<rparr>"

definition card_c :: Card where
  "card_c = \<lparr>card_id = 3, card_type = ATHIR, card_amount = 1000, card_status = SENT,
              image_file_id = None, image_path = None, serial_number = Some ''9902'',
              added_by_id = Some 1, added_at = 12\<rparr>"

definition added :: "int \<Rightarrow> int \<Rightarrow> datetime \<Rightarrow> CardInventoryLog" where
  "added lid cid t = \<lparr>log_id = lid, log_card_id = cid, log_actor_id = Some 1, log_action = ADD,
                       log_note = None, log_created_at = t\<rparr>"

definition pending_request :: RechargeRequest where
  "pending_request = \<lparr>req_id = 1, requester_id = 3, responsible_id = Some 2,
                       accounting_id = None, approver_id = None, request_type = FIXED,
                       req_amount = 5000, req_status = PENDING_MANAGER, final_card_id = None,
                       req_card_type = Some ASIA, reason = None, created_at = 20,
                       updated_at = 20\<rparr>"

definition pending_created :: RequestStatusHistory where
  "pending_created = \<lparr>hist_id = 1, hist_request_id = 1, hist_actor_id = Some 3,
                       from_status = None, to_status = PENDING_MANAGER, hist_note = None,
                       hist_created_at = 20\<rparr>"

definition office_db :: Database where
  "office_db = \<lparr>cards = [card_a, card_b, card_c],
                 card_logs = [added 1 1 10, added 2 2 11, added 3 3 12],
                 requests = [pending_request], history = [pending_created]\<rparr>"

definition manager_user :: User where
  "manager_user = \<lparr>user_id = 2, full_name = ''Manager'', phone = ''0770'', telegram_id = Some 502,
                    role = RESPONSIBLE, department = Some NETWORK, manager_id = None,
                    line_expiry = None, line_type = Some ASIA, can_approve_directly = True,
                    is_active = True\<rparr>"

definition member_user :: User where
  "member_user = \<lparr>user_id = 3, full_name = ''Member'', phone = ''0771'', telegram_id = Some 503,
                   role = USER, department = Some NETWORK, manager_id = Some 2,
                   line_expiry = None, line_type = Some ASIA, can_approve_directly = False,
                   is_active = True\<rparr>"

definition admin_user :: User where
  "admin_user = \<lparr>user_id = 1, full_name = ''Admin'', phone = ''0772'', telegram_id = Some 501,
                  role = ADMIN, department = None, manager_id = None,
                  line_expiry = None, line_type = Some ATHIR, can_approve_directly = False,
                  is_active = True\<rparr>"

text \<open>
  Three chats: one that takes every message, one where every call is refused as a bad
  request or fails quietly, so that the delivery returns false, and one that has blocked
  the bot, so that sending the photo raises.
\<close>

definition chat_open :: telegram where
  "chat_open = \<lparr>photo_by_id = CallOk, file_exists = True, photo_by_path = CallOk,
                 text_message = CallOk\<rparr>"

definition chat_refusing :: telegram where
  "chat_refusing = \<lparr>photo_by_id = CallBadRequest, file_exists = False,
                     photo_by_path = CallBadRequest, text_message = CallFailed\<rparr>"

definition chat_blocked :: telegram where
  "chat_blocked = \<lparr>photo_by_id = CallFailed, file_exists = False, photo_by_path = CallFailed,
                    text_message = CallFailed\<rparr>"

section \<open>Auxiliary facts\<close>

lemma fresh_id_gt: "i \<in> set ids \<Longrightarrow> i < fresh_id ids"
  by (induction ids) (auto simp: fresh_id_def)

lemma sort_key_head_least:
  assumes "sort_key f xs = y # ys"
  shows "y \<in> set xs \<and> (\<forall>x \<in> set xs. f y \<le> f x)"
proof -
  have s: "sorted (map f (y # ys))" using assms sorted_sort_key[of f xs] by simp
  have e: "set (y # ys) = set xs" using assms set_sort[of f xs] by simp
  from s e show ?thesis by auto
qed

lemma find_key_Some: "find (\<lambda>x. k x = i) xs = Some y \<Longrightarrow> k y = i \<and> y \<in> set xs"
  by (induction xs) (auto split: if_splits)

lemma find_key_None: "find (\<lambda>x. k x = i) xs = None \<longleftrightarrow> i \<notin> k ` set xs"
  by (induction xs) auto

lemma find_replace_same:
  "find (\<lambda>x. k x = i) xs = Some y \<Longrightarrow> k y' = i \<Longrightarrow>
   find (\<lambda>x. k x = i) (map (\<lambda>x. if k x = i then y' else x) xs) = Some y'"
  by (induction xs) (auto split: if_splits)

lemma find_replace_other:
  "j \<noteq> i \<Longrightarrow> k y' = i \<Longrightarrow>
   find (\<lambda>x. k x = j) (map (\<lambda>x. if k x = i then y' else x) xs) = find (\<lambda>x. k x = j) xs"
  by (induction xs) auto

lemma replace_found_row:
  "distinct (map k xs) \<Longrightarrow> find (\<lambda>x. k x = i) xs = Some y \<Longrightarrow>
   map (\<lambda>x. if k x = i then y else x) xs = xs"
proof (induction xs)
  case Nil
  then show ?case by simp
next
  case (Cons a xs)
  show ?case
  proof (cases "k a = i")
    case True
    with Cons.prems have ay: "a = y" by simp
    from True Cons.prems have "\<forall>x \<in> set xs. k x \<noteq> i" by (auto simp: image_iff)
    then have "map (\<lambda>x. if k x = i then y else x) xs = xs"
      by (simp add: map_idI)
    with True ay show ?thesis by simp
  next
    case False
    with Cons show ?thesis by simp
  qed
qed

lemma replace_twice:
  "k y' = i \<Longrightarrow> k y'' = i \<Longrightarrow>
   map (\<lambda>x. if k x = i then y'' else x) (map (\<lambda>x. if k x = i then y' else x) xs)
     = map (\<lambda>x. if k x = i then y'' else x) xs"
  by (induction xs) auto

lemma map_key_replace:
  "k y' = i \<Longrightarrow> map k (map (\<lambda>x. if k x = i then y' else x) xs) = map k xs"
  by (induction xs) auto


lemma available_rows_Cons:
  assumes "available_rows ctype amount locked db = crd # rest"
  shows "crd \<in> set (cards db) \<and> available_match ctype amount crd \<and> card_id crd \<notin> locked
         \<and> (\<forall>c \<in> set (cards db). available_match ctype amount c \<and> card_id c \<notin> locked
                \<longrightarrow> card_id crd \<le> card_id c)"
  using sort_key_head_least[OF assms[unfolded available_rows_def]] by auto

lemma get_card_after_flush:
  "get_card cid db = Some crd \<Longrightarrow> card_id crd' = cid \<Longrightarrow>
   get_card cid (card_log cid action actor note now (flush_card crd' db)) = Some crd'"
  using find_replace_same[of card_id cid "cards db" crd crd']
  by (simp add: get_card_def card_log_def flush_card_def)

lemma get_card_other_after_flush:
  "other \<noteq> cid \<Longrightarrow> card_id crd' = cid \<Longrightarrow>
   get_card other (card_log cid action actor note now (flush_card crd' db)) = get_card other db"
  using find_replace_other[of other cid card_id crd' "cards db"]
  by (simp add: get_card_def card_log_def flush_card_def)

lemma find_distinct:
  "distinct (map k xs) \<Longrightarrow> y \<in> set xs \<Longrightarrow> find (\<lambda>x. k x = k y) xs = Some y"
  by (induction xs) (auto simp: image_iff)

lemma count_after_replace:
  "distinct (map k xs) \<Longrightarrow> y \<in> set xs \<Longrightarrow> P y \<Longrightarrow> \<not> P y' \<Longrightarrow> k y' = k y \<Longrightarrow>
   Suc (length (filter P (map (\<lambda>x. if k x = k y then y' else x) xs))) = length (filter P xs)"
proof (induction xs)
  case Nil
  then show ?case by simp
next
  case (Cons a xs)
  show ?case
  proof (cases "a = y")
    case True
    from Cons.prems(1) True have "\<forall>x \<in> set xs. k x \<noteq> k y" by (auto simp: image_iff)
    then have "map (\<lambda>x. if k x = k y then y' else x) xs = xs" by (simp add: map_idI)
    with True Cons.prems(3,4) show ?thesis by simp
  next
    case False
    with Cons.prems(2) have yin: "y \<in> set xs" by simp
    with Cons.prems(1) have ka: "k a \<noteq> k y" by (auto simp: image_iff)
    from Cons.prems(1) have d: "distinct (map k xs)" by simp
    from Cons.IH[OF d yin Cons.prems(3,4,5)] ka show ?thesis by simp
  qed
qed

lemma available_rows_cards:
  "cards db' = cards db \<Longrightarrow> available_rows ctype amount locked db' = available_rows ctype amount locked db"
  by (simp add: available_rows_def)

lemma history_of_append:
  "history_of i (db\<lparr>history := history db @ [h]\<rparr>)
     = history_of i db @ (if hist_request_id h = i then [h] else [])"
  by (simp add: history_of_def)

lemma history_of_requests_update [simp]:
  "history_of i (db\<lparr>requests := rs\<rparr>) = history_of i db"
  by (simp add: history_of_def)

lemma history_of_unreferenced:
  "history_refs db \<Longrightarrow> i \<notin> req_id ` set (requests db) \<Longrightarrow> history_of i db = []"
  by (auto simp: history_refs_def history_of_def filter_empty_conv)

lemma create_request_keeps:
  assumes "history_refs db" and "history_reconstructs db"
  shows "history_refs (snd (create_request requester responsible amount rtype status note ctype now db))
       \<and> history_reconstructs (snd (create_request requester responsible amount rtype status note ctype now db))"
proof (cases "fits_integer amount \<and> 0 < amount")
  case False
  then show ?thesis using assms
    by (auto simp: create_request_def Let_def ck_recharge_amount_positive_def)
next
  case True
  let ?n = "fresh_id (map req_id (requests db))"
  have fresh: "?n \<notin> req_id ` set (requests db)"
    using fresh_id_gt[of ?n "map req_id (requests db)"] by auto
  have empty: "history_of ?n db = []"
    using history_of_unreferenced[OF assms(1) fresh] .
  have old: "\<forall>r \<in> set (requests db). req_id r \<noteq> ?n"
    using fresh by (metis image_eqI)
  show ?thesis
    using True assms empty old
    by (auto simp: create_request_def Let_def ck_recharge_amount_positive_def request_log_def
          history_refs_def history_reconstructs_def history_of_def)
qed

lemma recorded_update_keeps:
  assumes refs: "history_refs db" and inv: "history_reconstructs db"
    and found: "get_request rid db = Some request"
    and id: "req_id request' = rid"
    and to: "to_s = req_status request'"
  shows "history_refs (request_log rid actor to_s from_s note now (flush_request request' db))
       \<and> history_reconstructs (request_log rid actor to_s from_s note now (flush_request request' db))"
proof -
  let ?db = "request_log rid actor to_s from_s note now (flush_request request' db)"
  have mem: "request \<in> set (requests db)" and rid: "req_id request = rid"
    using found find_key_Some[of req_id rid "requests db" request] by (simp_all add: get_request_def)
  have "map req_id (requests ?db) = map req_id (requests db)"
    using map_key_replace[of req_id request' rid "requests db"] id
    by (simp add: request_log_def flush_request_def)
  then have "set (map req_id (requests ?db)) = set (map req_id (requests db))" by simp
  then have ids: "req_id ` set (requests ?db) = req_id ` set (requests db)" by simp
  have R: "history_refs ?db"
    using refs mem rid ids unfolding history_refs_def
    by (auto simp: request_log_def flush_request_def)
  have nonempty: "history_of rid db \<noteq> []" and first: "from_status (hd (history_of rid db)) = None"
    using inv mem rid unfolding history_reconstructs_def by auto
  have H: "\<And>i. history_of i ?db = history_of i db @
             (if i = rid then [\<lparr>hist_id = fresh_id (map hist_id (history db)), hist_request_id = rid,
                hist_actor_id = actor, from_status = from_s, to_status = to_s, hist_note = note,
                hist_created_at = now\<rparr>] else [])"
    by (auto simp: history_of_def request_log_def flush_request_def)
  have I: "history_reconstructs ?db"
    unfolding history_reconstructs_def
  proof
    fix r assume "r \<in> set (requests ?db)"
    then have "r \<in> (\<lambda>x. if req_id x = rid then request' else x) ` set (requests db)"
      using id by (simp add: request_log_def flush_request_def)
    then obtain y where y: "y \<in> set (requests db)"
      and r: "r = (if req_id y = rid then request' else y)"
      by blast
    show "history_of (req_id r) ?db \<noteq> []
        \<and> from_status (hd (history_of (req_id r) ?db)) = None
        \<and> to_status (last (history_of (req_id r) ?db)) = req_status r"
    proof (cases "req_id y = rid")
      case True
      with r id have "r = request'" and "req_id r = rid" by simp_all
      then show ?thesis using H[of rid] nonempty first to by simp
    next
      case False
      with r have "r = y" and "req_id r \<noteq> rid" by simp_all
      then show ?thesis using H[of "req_id y"] inv y unfolding history_reconstructs_def by simp
    qed
  qed
  from R I show ?thesis ..
qed

lemma set_status_keeps:
  assumes "history_refs db" and "history_reconstructs db"
  shows "history_refs (snd (set_status rid actor new_status note now db))
       \<and> history_reconstructs (snd (set_status rid actor new_status note now db))"
proof (cases "get_request rid db")
  case None
  then show ?thesis using assms by (simp add: set_status_def)
next
  case (Some request)
  have rid: "req_id request = rid"
    using Some find_key_Some[of req_id rid "requests db" request] by (simp add: get_request_def)
  show ?thesis
    using recorded_update_keeps[OF assms Some, of "request\<lparr>req_status := new_status, updated_at := now\<rparr>"
        new_status actor "Some (req_status request)" "note" now] Some rid
    by (simp add: set_status_def Let_def)
qed

lemma attach_card_keeps:
  assumes "history_refs db" and "history_reconstructs db"
  shows "history_refs (snd (attach_card rid cid actor now db))
       \<and> history_reconstructs (snd (attach_card rid cid actor now db))"
proof (cases "get_request rid db")
  case None
  then show ?thesis using assms by (simp add: attach_card_def)
next
  case (Some request)
  have rid: "req_id request = rid"
    using Some find_key_Some[of req_id rid "requests db" request] by (simp add: get_request_def)
  let ?r = "if final_card_id request = Some cid then request
            else request\<lparr>final_card_id := Some cid, updated_at := now\<rparr>"
  have id: "req_id ?r = rid" and st: "req_status ?r = req_status request" using rid by simp_all
  show ?thesis
    using recorded_update_keeps[OF assms Some id, of "req_status ?r" actor
        "Some (req_status ?r)" "Some ''Card assigned''" now] Some id
    by (simp add: attach_card_def Let_def)
qed

lemma set_approver_keeps:
  assumes refs: "history_refs db" and inv: "history_reconstructs db"
  shows "history_refs (snd (set_approver rid approver now db))
       \<and> history_reconstructs (snd (set_approver rid approver now db))"
proof (cases "get_request rid db")
  case None
  then show ?thesis using assms by (simp add: set_approver_def)
next
  case (Some request)
  have mem: "request \<in> set (requests db)" and rid: "req_id request = rid"
    using Some find_key_Some[of req_id rid "requests db" request] by (simp_all add: get_request_def)
  let ?r = "if approver_id request = Some approver then request
            else request\<lparr>approver_id := Some approver, updated_at := now\<rparr>"
  have id: "req_id ?r = rid" and st: "req_status ?r = req_status request" using rid by simp_all
  have db': "snd (set_approver rid approver now db) = flush_request ?r db"
    using Some by (simp add: set_approver_def Let_def)
  have "map req_id (requests (flush_request ?r db)) = map req_id (requests db)"
    using map_key_replace[of req_id ?r rid "requests db"] id
    by (simp add: flush_request_def)
  then have "set (map req_id (requests (flush_request ?r db))) = set (map req_id (requests db))"
    by simp
  then have ids: "req_id ` set (requests (flush_request ?r db)) = req_id ` set (requests db)"
    by simp
  have R: "history_refs (flush_request ?r db)"
    using refs ids unfolding history_refs_def by (simp add: flush_request_def)
  have H: "\<And>i. history_of i (flush_request ?r db) = history_of i db"
    by (simp add: history_of_def flush_request_def)
  have I: "history_reconstructs (flush_request ?r db)"
    unfolding history_reconstructs_def
  proof
    fix r assume "r \<in> set (requests (flush_request ?r db))"
    then have "r \<in> (\<lambda>x. if req_id x = rid then ?r else x) ` set (requests db)"
      using id by (simp add: flush_request_def)
    then obtain y where y: "y \<in> set (requests db)"
      and r: "r = (if req_id y = rid then ?r else y)"
      by blast
    show "history_of (req_id r) (flush_request ?r db) \<noteq> []
        \<and> from_status (hd (history_of (req_id r) (flush_request ?r db))) = None
        \<and> to_status (last (history_of (req_id r) (flush_request ?r db))) = req_status r"
    proof (cases "req_id y = rid")
      case True
      with r have e: "r = ?r" by simp
      have "req_id r = rid" and "req_status r = req_status request"
        unfolding e using id st by simp_all
      then show ?thesis
        using H[of rid] inv mem rid unfolding history_reconstructs_def by auto
    next
      case False
      with r have "r = y" by simp
      then show ?thesis using H[of "req_id y"] inv y unfolding history_reconstructs_def by simp
    qed
  qed
  from R I db' show ?thesis by simp
qed

lemma perform_keeps:
  assumes "history_refs db" and "history_reconstructs db"
  shows "history_refs (perform c now db) \<and> history_reconstructs (perform c now db)"
proof (cases c)
  case (CreateRequest x1 x2 x3 x4 x5 x6 x7)
  then show ?thesis using create_request_keeps[OF assms] by simp
next
  case (SetStatus x1 x2 x3 x4)
  then show ?thesis using set_status_keeps[OF assms] by simp
next
  case (AttachCard x1 x2 x3)
  then show ?thesis using attach_card_keeps[OF assms] by simp
next
  case (SetApprover x1 x2)
  then show ?thesis using set_approver_keeps[OF assms] by simp
qed

lemma run_calls_keeps:
  "history_refs db \<Longrightarrow> history_reconstructs db \<Longrightarrow>
   history_refs (run_calls cs db) \<and> history_reconstructs (run_calls cs db)"
proof (induction cs arbitrary: db)
  case Nil
  then show ?case by simp
next
  case (Cons a cs)
  obtain c now where a: "a = (c, now)" by (cases a)
  from perform_keeps[OF Cons.prems, of c now]
  have "history_refs (perform c now db)" and "history_reconstructs (perform c now db)"
    by simp_all
  from Cons.IH[OF this] a show ?case by simp
qed

lemma get_request_after_flush:
  "get_request rid db = Some request \<Longrightarrow> req_id request' = rid \<Longrightarrow>
   get_request rid (flush_request request' db) = Some request'"
  using find_replace_same[of req_id rid "requests db" request request']
  by (simp add: get_request_def flush_request_def)

lemma get_request_other_after_flush:
  "other \<noteq> rid \<Longrightarrow> req_id request' = rid \<Longrightarrow>
   get_request other (flush_request request' db) = get_request other db"
  using find_replace_other[of other rid req_id request' "requests db"]
  by (simp add: get_request_def flush_request_def)

lemma create_request_one_row:
  "create_request requester responsible amount rtype status note ctype now db = (Inr r, d)
   \<Longrightarrow> length (history d) = Suc (length (history db))"
  by (auto simp: create_request_def Let_def request_log_def split: if_splits)

lemma set_status_one_row:
  "set_status rid actor new_status note now db = (Inr r, d)
   \<Longrightarrow> length (history d) = Suc (length (history db))"
  by (auto simp: set_status_def Let_def request_log_def flush_request_def split: option.splits)

lemma attach_card_one_row:
  "attach_card rid cid actor now db = (Inr r, d)
   \<Longrightarrow> length (history d) = Suc (length (history db))"
  by (auto simp: attach_card_def Let_def request_log_def flush_request_def split: option.splits)

lemmas example_defs =
  card_a_def card_b_def card_c_def added_def pending_request_def pending_created_def
  office_db_def manager_user_def member_user_def admin_user_def empty_db_def
  chat_open_def chat_refusing_def chat_blocked_def

section \<open>The card ledger\<close>



text \<open>
  C4, as the code has it. \<open>mark_sent\<close> never looks at the status of the card: for a card
  that exists, whatever its status, it returns the card with status SENT, stores it, and
  appends one SEND row to the inventory log; every other card, the requests and the status
  history stay as they were. It raises \<open>NoResultFound\<close> exactly when no card has the id,
  and then the database is unchanged. No other error is raised.
\<close>

theorem mark_sent_any_status:
  "(get_card cid db = None \<longrightarrow> mark_sent cid actor now db = (Inl NoResultFound, db))
   \<and> (\<forall>crd. get_card cid db = Some crd \<longrightarrow>
        (\<exists>db'. mark_sent cid actor now db = (Inr (crd\<lparr>card_status := SENT\<rparr>), db')
           \<and> get_card cid db' = Some (crd\<lparr>card_status := SENT\<rparr>)
           \<and> (\<forall>other. other \<noteq> cid \<longrightarrow> get_card other db' = get_card other db)
           \<and> card_logs db' = card_logs db @
                [\<lparr>log_id = fresh_id (map log_id (card_logs db)), log_card_id = cid,
                  log_actor_id = actor, log_action = SEND, log_note = None,
                  log_created_at = now\<rparr>]
           \<and> requests db' = requests db \<and> history db' = history db))
   \<and> ((fst (mark_sent cid actor now db) = Inl NoResultFound)
        = (cid \<notin> card_id ` set (cards db)))"
proof (cases "get_card cid db")
  case None
  then show ?thesis
    using find_key_None[of card_id cid "cards db"]
    by (simp add: mark_sent_def get_card_def)
next
  case (Some crd)
  have k: "card_id crd = cid"
    using Some find_key_Some[of card_id cid "cards db" crd] by (simp add: get_card_def)
  have ex: "cid \<in> card_id ` set (cards db)"
    using Some find_key_None[of card_id cid "cards db"] by (simp add: get_card_def)
  let ?c = "crd\<lparr>card_status := SENT\<rparr>"
  let ?db = "card_log cid SEND actor None now (flush_card ?c db)"
  have run: "mark_sent cid actor now db = (Inr ?c, ?db)"
    using Some k by (simp add: mark_sent_def Let_def)
  have g1: "get_card cid ?db = Some ?c"
    using get_card_after_flush[OF Some, of ?c] k by simp
  have g2: "\<forall>other. other \<noteq> cid \<longrightarrow> get_card other ?db = get_card other db"
    using get_card_other_after_flush[of _ cid ?c] k by simp
  have l: "card_logs ?db = card_logs db @
                [\<lparr>log_id = fresh_id (map log_id (card_logs db)), log_card_id = cid,
                  log_actor_id = actor, log_action = SEND, log_note = None,
                  log_created_at = now\<rparr>]"
    by (simp add: card_log_def flush_card_def)
  have r: "requests ?db = requests db \<and> history ?db = history db"
    by (simp add: card_log_def flush_card_def)
  have B: "\<forall>crd. get_card cid db = Some crd \<longrightarrow>
        (\<exists>db'. mark_sent cid actor now db = (Inr (crd\<lparr>card_status := SENT\<rparr>), db')
           \<and> get_card cid db' = Some (crd\<lparr>card_status := SENT\<rparr>)
           \<and> (\<forall>other. other \<noteq> cid \<longrightarrow> get_card other db' = get_card other db)
           \<and> card_logs db' = card_logs db @
                [\<lparr>log_id = fresh_id (map log_id (card_logs db)), log_card_id = cid,
                  log_actor_id = actor, log_action = SEND, log_note = None,
                  log_created_at = now\<rparr>]
           \<and> requests db' = requests db \<and> history db' = history db)"
  proof (intro allI impI)
    fix c assume "get_card cid db = Some c"
    then have eq: "c = crd" using Some by simp
    show "\<exists>db'. mark_sent cid actor now db = (Inr (c\<lparr>card_status := SENT\<rparr>), db')
           \<and> get_card cid db' = Some (c\<lparr>card_status := SENT\<rparr>)
           \<and> (\<forall>other. other \<noteq> cid \<longrightarrow> get_card other db' = get_card other db)
           \<and> card_logs db' = card_logs db @
                [\<lparr>log_id = fresh_id (map log_id (card_logs db)), log_card_id = cid,
                  log_actor_id = actor, log_action = SEND, log_note = None,
                  log_created_at = now\<rparr>]
           \<and> requests db' = requests db \<and> history db' = history db"
      unfolding eq using run g1 g2 l r by (intro exI[of _ ?db] conjI) simp_all
  qed
  have A: "get_card cid db = None \<longrightarrow> mark_sent cid actor now db = (Inl NoResultFound, db)"
    using Some by simp
  have C: "(fst (mark_sent cid actor now db) = Inl NoResultFound)
        = (cid \<notin> card_id ` set (cards db))"
    using run ex by simp
  from A B C show ?thesis by (intro conjI)
qed

theorem mark_sent_any_status_witness:
  "get_card 1 office_db = Some card_a \<and> card_status card_a = AVAILABLE
   \<and> fst (mark_sent 1 (Some 2) 30 office_db) = Inr (card_a\<lparr>card_status := SENT\<rparr>)
   \<and> get_card 9 office_db = None
   \<and> mark_sent 9 (Some 2) 30 office_db = (Inl NoResultFound, office_db)"
proof -
  have a: "get_card 1 office_db = Some card_a" by (simp add: get_card_def example_defs)
  have b: "card_status card_a = AVAILABLE" by (simp add: example_defs)
  have c: "get_card 9 office_db = None" by (simp add: get_card_def example_defs)
  from mark_sent_any_status[of 1 office_db "Some 2" 30] a
  have d: "fst (mark_sent 1 (Some 2) 30 office_db) = Inr (card_a\<lparr>card_status := SENT\<rparr>)"
    by auto
  from mark_sent_any_status[of 9 office_db "Some 2" 30] c
  have e: "mark_sent 9 (Some 2) 30 office_db = (Inl NoResultFound, office_db)"
    by blast
  from a b c d e show ?thesis by (intro conjI)
qed

text \<open>
  The claim of C4 that a card which is not RESERVED is rejected fails on the example
  inventory: card 1 is AVAILABLE and card 3 is already SENT, and both calls succeed.
\<close>

theorem mark_sent_unreserved_counterexample:
  "get_card 1 office_db = Some card_a \<and> card_status card_a = AVAILABLE
   \<and> fst (mark_sent 1 (Some 2) 30 office_db) = Inr (card_a\<lparr>card_status := SENT\<rparr>)
   \<and> get_card 1 (snd (mark_sent 1 (Some 2) 30 office_db)) = Some (card_a\<lparr>card_status := SENT\<rparr>)
   \<and> get_card 3 office_db = Some card_c \<and> card_status card_c = SENT
   \<and> fst (mark_sent 3 (Some 2) 30 office_db) = Inr card_c"
  by (simp add: mark_sent_def get_card_def flush_card_def card_log_def Let_def example_defs)

text \<open>
  C5, as the code has it. \<open>add_card\<close> raises \<open>ValueError\<close> when neither an image file id
  nor a serial number is given. When one is given, the row is inserted: an amount outside
  the range of the integer column raises \<open>OverflowError\<close>; an amount inside the range that
  is not positive (\<open>ck_card_amount_positive\<close>), or a serial number that an existing card
  has (\<open>uq_card_serial\<close>), raises \<open>IntegrityError\<close>. In each of these failures the
  database is unchanged. In every other case, a positive amount that the column holds and
  a serial number that is absent or new, the call appends one card, with status AVAILABLE,
  the given fields and a fresh id, and one ADD row for it to the inventory log.
\<close>

theorem add_card_validation:
  "(file_id = None \<and> serial = None \<longrightarrow>
      add_card ctype amount actor file_id path serial now db = (Inl ValueError, db))
   \<and> (\<not> (file_id = None \<and> serial = None) \<and> \<not> fits_integer amount \<longrightarrow>
      add_card ctype amount actor file_id path serial now db = (Inl OverflowError, db))
   \<and> (\<not> (file_id = None \<and> serial = None) \<and> fits_integer amount
        \<and> (amount \<le> 0 \<or> (serial \<noteq> None \<and> serial \<in> serial_number ` set (cards db))) \<longrightarrow>
      add_card ctype amount actor file_id path serial now db = (Inl IntegrityError, db))
   \<and> (\<not> (file_id = None \<and> serial = None) \<and> 0 < amount \<and> amount \<le> integer_max
        \<and> (serial = None \<or> serial \<notin> serial_number ` set (cards db)) \<longrightarrow>
      (\<exists>crd. add_card ctype amount actor file_id path serial now db =
         (Inr crd,
          db\<lparr>cards := cards db @ [crd],
             card_logs := card_logs db @
               [\<lparr>log_id = fresh_id (map log_id (card_logs db)), log_card_id = card_id crd,
                 log_actor_id = actor, log_action = ADD, log_note = None,
                 log_created_at = now\<rparr>]\<rparr>)
         \<and> card_status crd = AVAILABLE \<and> card_type crd = ctype \<and> card_amount crd = amount
         \<and> image_file_id crd = file_id \<and> image_path crd = path \<and> serial_number crd = serial
         \<and> added_by_id crd = actor \<and> card_id crd \<notin> card_id ` set (cards db)))"
proof -
  have fresh: "fresh_id (map card_id (cards db)) \<notin> card_id ` set (cards db)"
    using fresh_id_gt[of "fresh_id (map card_id (cards db))" "map card_id (cards db)"] by auto
  have fit: "0 < amount \<and> amount \<le> integer_max \<longrightarrow> fits_integer amount"
    by (simp add: fits_integer_def integer_min_def)
  have A: "file_id = None \<and> serial = None \<longrightarrow>
      add_card ctype amount actor file_id path serial now db = (Inl ValueError, db)"
    by (simp add: add_card_def)
  have O: "\<not> (file_id = None \<and> serial = None) \<and> \<not> fits_integer amount \<longrightarrow>
      add_card ctype amount actor file_id path serial now db = (Inl OverflowError, db)"
    by (auto simp: add_card_def Let_def)
  have B: "\<not> (file_id = None \<and> serial = None) \<and> fits_integer amount
        \<and> (amount \<le> 0 \<or> (serial \<noteq> None \<and> serial \<in> serial_number ` set (cards db))) \<longrightarrow>
      add_card ctype amount actor file_id path serial now db = (Inl IntegrityError, db)"
    by (auto simp: add_card_def Let_def ck_card_amount_positive_def uq_card_serial_def
          split: option.splits)
  have C: "\<not> (file_id = None \<and> serial = None) \<and> 0 < amount \<and> amount \<le> integer_max
        \<and> (serial = None \<or> serial \<notin> serial_number ` set (cards db)) \<longrightarrow>
      (\<exists>crd. add_card ctype amount actor file_id path serial now db =
         (Inr crd,
          db\<lparr>cards := cards db @ [crd],
             card_logs := card_logs db @
               [\<lparr>log_id = fresh_id (map log_id (card_logs db)), log_card_id = card_id crd,
                 log_actor_id = actor, log_action = ADD, log_note = None,
                 log_created_at = now\<rparr>]\<rparr>)
         \<and> card_status crd = AVAILABLE \<and> card_type crd = ctype \<and> card_amount crd = amount
         \<and> image_file_id crd = file_id \<and> image_path crd = path \<and> serial_number crd = serial
         \<and> added_by_id crd = actor \<and> card_id crd \<notin> card_id ` set (cards db))"
    using fresh fit
    by (auto simp: add_card_def Let_def ck_card_amount_positive_def uq_card_serial_def
          card_log_def split: option.splits)
  from A O B C show ?thesis by (intro conjI)
qed

theorem add_card_validation_witness:
  "add_card ASIA 5000 (Some 1) None None None 30 office_db = (Inl ValueError, office_db)
   \<and> \<not> fits_integer 9223372036854775808
   \<and> add_card ASIA 9223372036854775808 (Some 1) None None (Some ''5150'') 30 office_db
       = (Inl OverflowError, office_db)
   \<and> fits_integer 5000 \<and> Some ''7731'' \<in> serial_number ` set (cards office_db)
   \<and> add_card ASIA 5000 (Some 1) None None (Some ''7731'') 30 office_db
       = (Inl IntegrityError, office_db)
   \<and> (5000::int) \<le> integer_max \<and> Some ''5150'' \<notin> serial_number ` set (cards office_db)
   \<and> fst (add_card ASIA 5000 (Some 1) None None (Some ''5150'') 30 office_db) =
       Inr \<lparr>card_id = 4, card_type = ASIA, card_amount = 5000, card_status = AVAILABLE,
             image_file_id = None, image_path = None, serial_number = Some ''5150'',
             added_by_id = Some 1, added_at = 30\<rparr>"
proof -
  have a: "add_card ASIA 5000 (Some 1) None None None 30 office_db = (Inl ValueError, office_db)"
    using add_card_validation[where file_id = None and serial = None and ctype = ASIA
            and amount = 5000 and actor = "Some 1" and path = None and now = 30 and db = office_db]
    by simp
  have o: "\<not> fits_integer 9223372036854775808"
    by (simp add: fits_integer_def integer_max_def)
  have p: "add_card ASIA 9223372036854775808 (Some 1) None None (Some ''5150'') 30 office_db
       = (Inl OverflowError, office_db)"
    using add_card_validation[where file_id = None and serial = "Some ''5150''" and ctype = ASIA
            and amount = 9223372036854775808 and actor = "Some 1" and path = None and now = 30
            and db = office_db] o
    by simp
  have f: "fits_integer 5000" by (simp add: fits_integer_def integer_min_def integer_max_def)
  have b: "Some ''7731'' \<in> serial_number ` set (cards office_db)"
    by (simp add: example_defs)
  have c: "add_card ASIA 5000 (Some 1) None None (Some ''7731'') 30 office_db
       = (Inl IntegrityError, office_db)"
    using add_card_validation[where file_id = None and serial = "Some ''7731''" and ctype = ASIA
            and amount = 5000 and actor = "Some 1" and path = None and now = 30 and db = office_db]
      b f
    by simp
  have m: "(5000::int) \<le> integer_max" by (simp add: integer_max_def)
  have d: "Some ''5150'' \<notin> serial_number ` set (cards office_db)"
    by (simp add: example_defs)
  have e: "fst (add_card ASIA 5000 (Some 1) None None (Some ''5150'') 30 office_db) =
       Inr \<lparr>card_id = 4, card_type = ASIA, card_amount = 5000, card_status = AVAILABLE,
             image_file_id = None, image_path = None, serial_number = Some ''5150'',
             added_by_id = Some 1, added_at = 30\<rparr>"
    by (simp add: add_card_def Let_def ck_card_amount_positive_def uq_card_serial_def
          fits_integer_def integer_min_def integer_max_def card_log_def fresh_id_def example_defs)
  from a o p f b c m d e show ?thesis by (intro conjI)
qed

text \<open>
  The claim of C5 fails in three places. A non-positive amount with an image reference is
  not refused as a validation error: the service does not check it, the table does, and
  the error is the one a duplicate serial number raises. A positive amount with a serial
  number does not always create a card: a serial number already in the table is refused,
  and so is an amount that the integer column cannot hold.
\<close>

theorem add_card_nonpositive_amount_counterexample:
  "add_card ASIA 0 (Some 1) (Some ''photo-9'') None None 30 office_db
     = (Inl IntegrityError, office_db)
   \<and> IntegrityError \<noteq> ValueError
   \<and> add_card ASIA 5000 (Some 1) None None (Some ''7731'') 30 office_db
       = (Inl IntegrityError, office_db)
   \<and> add_card ASIA 9223372036854775808 (Some 1) (Some ''photo-9'') None None 30 office_db
       = (Inl OverflowError, office_db)"
  by (simp add: add_card_def Let_def ck_card_amount_positive_def uq_card_serial_def
        fits_integer_def integer_min_def integer_max_def example_defs)

text \<open>
  C9, as the code has it. On a card that is already AVAILABLE, \<open>restore_card\<close> raises
  nothing and returns the card as it was; the card table, the requests and the status
  history are unchanged, but the inventory log gets one more RESTORE row. (The card table
  has a primary key, so ids are distinct.)
\<close>

theorem restore_card_already_available:
  assumes "distinct (map card_id (cards db))"
    and "get_card cid db = Some crd"
    and "card_status crd = AVAILABLE"
  shows "restore_card cid actor now db =
           (Inr crd,
            db\<lparr>card_logs := card_logs db @
                 [\<lparr>log_id = fresh_id (map log_id (card_logs db)), log_card_id = cid,
                   log_actor_id = actor, log_action = RESTORE, log_note = None,
                   log_created_at = now\<rparr>]\<rparr>)"
proof -
  have k: "card_id crd = cid"
    using assms(2) find_key_Some[of card_id cid "cards db" crd] by (simp add: get_card_def)
  have same: "crd\<lparr>card_status := AVAILABLE\<rparr> = crd"
    using assms(3) by simp
  have rows: "map (\<lambda>c. if card_id c = cid then crd else c) (cards db) = cards db"
    using replace_found_row[of card_id "cards db" cid crd] assms(1,2)
    by (simp add: get_card_def)
  show ?thesis
    using assms(2) k same rows
    by (simp add: restore_card_def Let_def flush_card_def card_log_def)
qed

theorem restore_card_already_available_witness:
  "distinct (map card_id (cards office_db)) \<and> get_card 1 office_db = Some card_a
   \<and> card_status card_a = AVAILABLE
   \<and> restore_card 1 (Some 2) 30 office_db =
       (Inr card_a,
        office_db\<lparr>card_logs := card_logs office_db @
          [\<lparr>log_id = fresh_id (map log_id (card_logs office_db)), log_card_id = 1,
            log_actor_id = Some 2, log_action = RESTORE, log_note = None,
            log_created_at = 30\<rparr>]\<rparr>)"
proof -
  have a: "distinct (map card_id (cards office_db))" by (simp add: example_defs)
  have b: "get_card 1 office_db = Some card_a" by (simp add: get_card_def example_defs)
  have c: "card_status card_a = AVAILABLE" by (simp add: example_defs)
  from a b c restore_card_already_available[OF a b c, of "Some 2" 30]
  show ?thesis by (intro conjI)
qed

text \<open>
  The claim of C9 that the repeated call leaves the persisted state, log included,
  unchanged fails on the example inventory: card 1 is AVAILABLE, and restoring it adds a row.
\<close>

theorem restore_card_repeated_counterexample:
  "get_card 1 office_db = Some card_a \<and> card_status card_a = AVAILABLE
   \<and> card_logs (snd (restore_card 1 (Some 2) 30 office_db)) =
       card_logs office_db @
         [\<lparr>log_id = 4, log_card_id = 1, log_actor_id = Some 2, log_action = RESTORE,
           log_note = None, log_created_at = 30\<rparr>]
   \<and> snd (restore_card 1 (Some 2) 30 office_db) \<noteq> office_db"
proof -
  have a: "get_card 1 office_db = Some card_a" by (simp add: get_card_def example_defs)
  have b: "card_status card_a = AVAILABLE" by (simp add: example_defs)
  have c: "card_logs (snd (restore_card 1 (Some 2) 30 office_db)) =
       card_logs office_db @
         [\<lparr>log_id = 4, log_card_id = 1, log_actor_id = Some 2, log_action = RESTORE,
           log_note = None, log_created_at = 30\<rparr>]"
    by (simp add: restore_card_def get_card_def flush_card_def card_log_def fresh_id_def Let_def
          example_defs)
  have d: "snd (restore_card 1 (Some 2) 30 office_db) \<noteq> office_db"
  proof
    assume "snd (restore_card 1 (Some 2) 30 office_db) = office_db"
    with c show False by simp
  qed
  from a b c d show ?thesis by (intro conjI)
qed

text \<open>
  C8. Reserve, then restore. When \<open>take_first_available\<close> has returned a card, that card
  is RESERVED in the database and the count of available cards of its type and amount is
  one less than before. \<open>restore_card\<close> on its id then succeeds and returns the card with
  status AVAILABLE; the card table is what it was before the reservation, so
  \<open>count_available\<close> is back at its value before the reservation, and the next
  \<open>take_first_available\<close> for the same type and amount (with the same rows locked by
  others) returns this very card again. (The card table has a primary key, so ids are
  distinct.)
\<close>

theorem reserve_restore_round_trip:
  assumes pk: "distinct (map card_id (cards db))"
    and take: "take_first_available ctype amount actor locked now db = (Inr crd, db1)"
  shows "\<exists>db2. restore_card (card_id crd) actor' now' db1 = (Inr (crd\<lparr>card_status := AVAILABLE\<rparr>), db2)
           \<and> get_card (card_id crd) db1 = Some crd \<and> card_status crd = RESERVED
           \<and> get_card (card_id crd) db2 = Some (crd\<lparr>card_status := AVAILABLE\<rparr>)
           \<and> cards db2 = cards db
           \<and> Suc (count_available ctype amount db1) = count_available ctype amount db
           \<and> count_available ctype amount db2 = count_available ctype amount db
           \<and> (\<exists>db3. take_first_available ctype amount actor'' locked now'' db2 = (Inr crd, db3))"
proof -
  obtain c0 rest where rows: "available_rows ctype amount locked db = c0 # rest"
    using take by (cases "available_rows ctype amount locked db")
      (simp_all add: take_first_available_def)
  have crd: "crd = c0\<lparr>card_status := RESERVED\<rparr>"
    using take rows by (simp add: take_first_available_def Let_def)
  have db1: "db1 = card_log (card_id crd) RESERVE actor None now (flush_card crd db)"
    using take rows by (auto simp: take_first_available_def Let_def)
  have c0: "c0 \<in> set (cards db)" and m0: "available_match ctype amount c0"
    using available_rows_Cons[OF rows] by simp_all
  have st0: "card_status c0 = AVAILABLE" using m0 by (simp add: available_match_def)
  have id: "card_id crd = card_id c0" using crd by simp
  have restored: "crd\<lparr>card_status := AVAILABLE\<rparr> = c0" using crd st0 by simp
  have g0: "get_card (card_id crd) db = Some c0"
    using find_distinct[OF pk c0] id by (simp add: get_card_def)
  have g1: "get_card (card_id crd) db1 = Some crd"
    unfolding db1 using get_card_after_flush[OF g0, of crd] by simp
  let ?db2 = "card_log (card_id crd) RESTORE actor' None now' (flush_card c0 db1)"
  have run: "restore_card (card_id crd) actor' now' db1 = (Inr (crd\<lparr>card_status := AVAILABLE\<rparr>), ?db2)"
    using g1 restored id by (simp add: restore_card_def Let_def)
  have g2: "get_card (card_id crd) ?db2 = Some (crd\<lparr>card_status := AVAILABLE\<rparr>)"
    using get_card_after_flush[OF g1, of c0] id restored by simp
  have cards1: "cards db1 = map (\<lambda>c. if card_id c = card_id c0 then crd else c) (cards db)"
    unfolding db1 using id by (simp add: card_log_def flush_card_def)
  have "cards ?db2 = map (\<lambda>c. if card_id c = card_id c0 then c0 else c) (cards db1)"
    by (simp add: card_log_def flush_card_def)
  also have "\<dots> = map (\<lambda>c. if card_id c = card_id c0 then c0 else c) (cards db)"
    unfolding cards1 using replace_twice[of card_id crd "card_id c0" c0 "cards db"] id by simp
  also have "\<dots> = cards db"
    using replace_found_row[of card_id "cards db" "card_id c0" c0] pk g0 id
    by (simp add: get_card_def)
  finally have cards2: "cards ?db2 = cards db" .
  have notm: "\<not> available_match ctype amount crd"
    using crd by (simp add: available_match_def)
  have cnt1: "Suc (count_available ctype amount db1) = count_available ctype amount db"
    unfolding count_available_def cards1
    using count_after_replace[of card_id "cards db" c0 "available_match ctype amount" crd]
      pk c0 m0 notm id by simp
  have cnt2: "count_available ctype amount ?db2 = count_available ctype amount db"
    by (simp add: count_available_def cards2)
  have rows2: "available_rows ctype amount locked ?db2 = c0 # rest"
    using available_rows_cards[OF cards2] rows by simp
  have again: "\<exists>db3. take_first_available ctype amount actor'' locked now'' ?db2 = (Inr crd, db3)"
    using rows2 crd by (simp add: take_first_available_def Let_def)
  have st: "card_status crd = RESERVED" using crd by simp
  show ?thesis
    apply (rule exI[of _ ?db2])
    using run g1 st g2 cards2 cnt1 cnt2 again by (intro conjI)
qed

theorem reserve_restore_round_trip_witness:
  "distinct (map card_id (cards office_db))
   \<and> fst (take_first_available ASIA 5000 (Some 2) {} 30 office_db)
       = Inr (card_a\<lparr>card_status := RESERVED\<rparr>)
   \<and> count_available ASIA 5000 office_db = 2
   \<and> count_available ASIA 5000 (snd (take_first_available ASIA 5000 (Some 2) {} 30 office_db)) = 1
   \<and> (\<exists>db2. restore_card 1 (Some 2) 31
               (snd (take_first_available ASIA 5000 (Some 2) {} 30 office_db))
             = (Inr card_a, db2)
           \<and> cards db2 = cards office_db
           \<and> count_available ASIA 5000 db2 = 2
           \<and> fst (take_first_available ASIA 5000 (Some 1) {} 32 db2)
               = Inr (card_a\<lparr>card_status := RESERVED\<rparr>))"
proof -
  let ?t = "take_first_available ASIA 5000 (Some 2) {} 30 office_db"
  have pk: "distinct (map card_id (cards office_db))" by (simp add: example_defs)
  have f: "fst ?t = Inr (card_a\<lparr>card_status := RESERVED\<rparr>)"
    by (simp add: example_defs available_match_def take_first_available_def available_rows_def
          card_log_def flush_card_def fresh_id_def Let_def)
  then have take: "?t = (Inr (card_a\<lparr>card_status := RESERVED\<rparr>), snd ?t)"
    by (simp add: prod_eq_iff)
  have c0: "count_available ASIA 5000 office_db = 2"
    by (simp add: count_available_def available_match_def example_defs)
  have ida: "card_id (card_a\<lparr>card_status := RESERVED\<rparr>) = 1" by (simp add: example_defs)
  have restored: "card_a\<lparr>card_status := RESERVED, card_status := AVAILABLE\<rparr> = card_a"
    by (simp add: example_defs)
  from reserve_restore_round_trip[OF pk take, of "Some 2" 31 "Some 1" 32]
  obtain db2 where r: "restore_card 1 (Some 2) 31 (snd ?t) = (Inr card_a, db2)"
    and cs: "cards db2 = cards office_db"
    and n1: "Suc (count_available ASIA 5000 (snd ?t)) = count_available ASIA 5000 office_db"
    and n2: "count_available ASIA 5000 db2 = count_available ASIA 5000 office_db"
    and ag: "\<exists>db3. take_first_available ASIA 5000 (Some 1) {} 32 db2
                 = (Inr (card_a\<lparr>card_status := RESERVED\<rparr>), db3)"
    unfolding ida restored by blast
  from n1 c0 have c1: "count_available ASIA 5000 (snd ?t) = 1" by simp
  from n2 c0 have c2: "count_available ASIA 5000 db2 = 2" by simp
  from ag have f2: "fst (take_first_available ASIA 5000 (Some 1) {} 32 db2)
               = Inr (card_a\<lparr>card_status := RESERVED\<rparr>)" by auto
  from r cs c2 f2 have "\<exists>db2. restore_card 1 (Some 2) 31 (snd ?t) = (Inr card_a, db2)
           \<and> cards db2 = cards office_db
           \<and> count_available ASIA 5000 db2 = 2
           \<and> fst (take_first_available ASIA 5000 (Some 1) {} 32 db2)
               = Inr (card_a\<lparr>card_status := RESERVED\<rparr>)" by blast
  with pk f c0 c1 show ?thesis by (intro conjI)
qed

section \<open>The request workflow\<close>

text \<open>
  C3. Take a database in which every history row belongs to a request and the history of
  every request is non-empty, starts with a row without \<open>from_status\<close> and ends with a row
  whose \<open>to_status\<close> is the status of the request; the empty database is one. After any
  sequence of \<open>create_request\<close>, \<open>set_status\<close>, \<open>attach_card\<close> and \<open>set_approver\<close> calls,
  failed calls included, the history of every request, in the order of creation, is
  non-empty, its first row has no \<open>from_status\<close>, and the \<open>to_status\<close> of its last row is
  the current status of the request.
\<close>

theorem status_history_reconstructs_status:
  assumes "history_refs db" and "history_reconstructs db"
  shows "\<forall>r \<in> set (requests (run_calls cs db)).
           history_of (req_id r) (run_calls cs db) \<noteq> []
           \<and> from_status (hd (history_of (req_id r) (run_calls cs db))) = None
           \<and> to_status (last (history_of (req_id r) (run_calls cs db))) = req_status r"
  using run_calls_keeps[OF assms, of cs] by (simp add: history_reconstructs_def)

theorem status_history_reconstructs_status_witness:
  "history_refs empty_db \<and> history_reconstructs empty_db
   \<and> map req_status (requests (run_calls
         [(CreateRequest 3 (Some 2) 5000 FIXED PENDING_MANAGER None (Some ASIA), 20),
          (SetStatus 1 (Some 2) PENDING_ACCOUNTING None, 21),
          (AttachCard 1 7 (Some 1), 22),
          (SetStatus 1 (Some 1) APPROVED None, 23)] empty_db)) = [APPROVED]
   \<and> map (\<lambda>h. (from_status h, to_status h)) (history_of 1 (run_calls
         [(CreateRequest 3 (Some 2) 5000 FIXED PENDING_MANAGER None (Some ASIA), 20),
          (SetStatus 1 (Some 2) PENDING_ACCOUNTING None, 21),
          (AttachCard 1 7 (Some 1), 22),
          (SetStatus 1 (Some 1) APPROVED None, 23)] empty_db))
      = [(None, PENDING_MANAGER), (Some PENDING_MANAGER, PENDING_ACCOUNTING),
         (Some PENDING_ACCOUNTING, PENDING_ACCOUNTING), (Some PENDING_ACCOUNTING, APPROVED)]
   \<and> to_status (last (history_of 1 (run_calls
         [(CreateRequest 3 (Some 2) 5000 FIXED PENDING_MANAGER None (Some ASIA), 20),
          (SetStatus 1 (Some 2) PENDING_ACCOUNTING None, 21),
          (AttachCard 1 7 (Some 1), 22),
          (SetStatus 1 (Some 1) APPROVED None, 23)] empty_db))) = APPROVED"
proof -
  let ?db = "run_calls
         [(CreateRequest 3 (Some 2) 5000 FIXED PENDING_MANAGER None (Some ASIA), 20),
          (SetStatus 1 (Some 2) PENDING_ACCOUNTING None, 21),
          (AttachCard 1 7 (Some 1), 22),
          (SetStatus 1 (Some 1) APPROVED None, 23)] empty_db"
  have refs: "history_refs empty_db" by (simp add: history_refs_def empty_db_def)
  have inv: "history_reconstructs empty_db" by (simp add: history_reconstructs_def empty_db_def)
  have reqs: "requests ?db =
      [\<lparr>req_id = 1, requester_id = 3, responsible_id = Some 2, accounting_id = None,
        approver_id = None, request_type = FIXED, req_amount = 5000, req_status = APPROVED,
        final_card_id = Some 7, req_card_type = Some ASIA, reason = None, created_at = 20,
        updated_at = 23\<rparr>]"
    by (simp add: create_request_def set_status_def attach_card_def get_request_def
          flush_request_def request_log_def ck_recharge_amount_positive_def fresh_id_def
          fits_integer_def integer_min_def integer_max_def Let_def empty_db_def)
  have hist: "map (\<lambda>h. (from_status h, to_status h)) (history_of 1 ?db)
      = [(None, PENDING_MANAGER), (Some PENDING_MANAGER, PENDING_ACCOUNTING),
         (Some PENDING_ACCOUNTING, PENDING_ACCOUNTING), (Some PENDING_ACCOUNTING, APPROVED)]"
    by (simp add: create_request_def set_status_def attach_card_def get_request_def
          flush_request_def request_log_def ck_recharge_amount_positive_def fresh_id_def
          fits_integer_def integer_min_def integer_max_def history_of_def Let_def empty_db_def)
  have st: "map req_status (requests ?db) = [APPROVED]" using reqs by simp
  have fin: "to_status (last (history_of 1 ?db)) = APPROVED"
    using status_history_reconstructs_status[OF refs inv, of
        "[(CreateRequest 3 (Some 2) 5000 FIXED PENDING_MANAGER None (Some ASIA), 20),
          (SetStatus 1 (Some 2) PENDING_ACCOUNTING None, 21),
          (AttachCard 1 7 (Some 1), 22),
          (SetStatus 1 (Some 1) APPROVED None, 23)]"]
    unfolding reqs by simp
  from refs inv st hist fin show ?thesis by (intro conjI)
qed

text \<open>
  C7. \<open>set_status\<close> accepts every transition. When a request with the id exists, whatever
  its status and whatever the new one, the call returns the request with the new status and
  with \<open>updated_at\<close> set to the current time, stores it, leaves every other request, the
  cards and the inventory log alone, and appends exactly one history row, from the status
  the request had to the new one, with the actor and the note. It raises \<open>NoResultFound\<close>
  exactly when no request has the id, and then nothing changes; it raises nothing else.
\<close>

theorem set_status_records_any_transition:
  "(get_request rid db = None \<longrightarrow>
      set_status rid actor new_status note now db = (Inl NoResultFound, db))
   \<and> (\<forall>request. get_request rid db = Some request \<longrightarrow>
        (\<exists>db'. set_status rid actor new_status note now db =
                 (Inr (request\<lparr>req_status := new_status, updated_at := now\<rparr>), db')
           \<and> get_request rid db' = Some (request\<lparr>req_status := new_status, updated_at := now\<rparr>)
           \<and> (\<forall>other. other \<noteq> rid \<longrightarrow> get_request other db' = get_request other db)
           \<and> (\<exists>h. history db' = history db @ [h] \<and> hist_request_id h = rid
                  \<and> from_status h = Some (req_status request) \<and> to_status h = new_status
                  \<and> hist_actor_id h = actor \<and> hist_note h = note)
           \<and> cards db' = cards db \<and> card_logs db' = card_logs db))
   \<and> ((fst (set_status rid actor new_status note now db) = Inl NoResultFound)
        = (rid \<notin> req_id ` set (requests db)))
   \<and> (\<forall>e. fst (set_status rid actor new_status note now db) = Inl e \<longrightarrow> e = NoResultFound)"
proof (cases "get_request rid db")
  case None
  then show ?thesis
    using find_key_None[of req_id rid "requests db"]
    by (simp add: set_status_def get_request_def)
next
  case (Some request)
  have k: "req_id request = rid"
    using Some find_key_Some[of req_id rid "requests db" request] by (simp add: get_request_def)
  have ex: "rid \<in> req_id ` set (requests db)"
    using Some find_key_None[of req_id rid "requests db"] by (simp add: get_request_def)
  let ?r = "request\<lparr>req_status := new_status, updated_at := now\<rparr>"
  let ?db = "snd (set_status rid actor new_status note now db)"
  have run: "set_status rid actor new_status note now db = (Inr ?r, ?db)"
    using Some by (simp add: set_status_def Let_def)
  have reqs: "requests ?db = map (\<lambda>x. if req_id x = rid then ?r else x) (requests db)"
    using Some k by (simp add: set_status_def Let_def request_log_def flush_request_def)
  have g1: "get_request rid ?db = Some ?r"
    unfolding get_request_def reqs
    using find_replace_same[of req_id rid "requests db" request ?r] Some k
    by (simp add: get_request_def)
  have g2: "\<forall>other. other \<noteq> rid \<longrightarrow> get_request other ?db = get_request other db"
    unfolding get_request_def reqs
    using find_replace_other[of _ rid req_id ?r "requests db"] k by simp
  have h: "\<exists>h. history ?db = history db @ [h] \<and> hist_request_id h = rid
                  \<and> from_status h = Some (req_status request) \<and> to_status h = new_status
                  \<and> hist_actor_id h = actor \<and> hist_note h = note"
    using Some k by (simp add: set_status_def Let_def request_log_def flush_request_def)
  have c: "cards ?db = cards db \<and> card_logs ?db = card_logs db"
    using Some by (simp add: set_status_def Let_def request_log_def flush_request_def)
  have f: "fst (set_status rid actor new_status note now db) = Inr ?r"
    using Some by (simp add: set_status_def Let_def)
  have A: "get_request rid db = None \<longrightarrow>
      set_status rid actor new_status note now db = (Inl NoResultFound, db)"
    using Some by simp
  have B: "\<forall>request. get_request rid db = Some request \<longrightarrow>
        (\<exists>db'. set_status rid actor new_status note now db =
                 (Inr (request\<lparr>req_status := new_status, updated_at := now\<rparr>), db')
           \<and> get_request rid db' = Some (request\<lparr>req_status := new_status, updated_at := now\<rparr>)
           \<and> (\<forall>other. other \<noteq> rid \<longrightarrow> get_request other db' = get_request other db)
           \<and> (\<exists>h. history db' = history db @ [h] \<and> hist_request_id h = rid
                  \<and> from_status h = Some (req_status request) \<and> to_status h = new_status
                  \<and> hist_actor_id h = actor \<and> hist_note h = note)
           \<and> cards db' = cards db \<and> card_logs db' = card_logs db)"
  proof (intro allI impI)
    fix request' assume "get_request rid db = Some request'"
    then have eq: "request' = request" using Some by simp
    show "\<exists>db'. set_status rid actor new_status note now db =
                 (Inr (request'\<lparr>req_status := new_status, updated_at := now\<rparr>), db')
           \<and> get_request rid db' = Some (request'\<lparr>req_status := new_status, updated_at := now\<rparr>)
           \<and> (\<forall>other. other \<noteq> rid \<longrightarrow> get_request other db' = get_request other db)
           \<and> (\<exists>h. history db' = history db @ [h] \<and> hist_request_id h = rid
                  \<and> from_status h = Some (req_status request') \<and> to_status h = new_status
                  \<and> hist_actor_id h = actor \<and> hist_note h = note)
           \<and> cards db' = cards db \<and> card_logs db' = card_logs db"
      unfolding eq using run g1 g2 h c by (intro exI[of _ ?db] conjI) simp_all
  qed
  have C: "(fst (set_status rid actor new_status note now db) = Inl NoResultFound)
        = (rid \<notin> req_id ` set (requests db))"
    using f ex by simp
  have D: "\<forall>e. fst (set_status rid actor new_status note now db) = Inl e \<longrightarrow> e = NoResultFound"
    using f by simp
  from A B C D show ?thesis by (intro conjI)
qed

theorem set_status_records_any_transition_witness:
  "get_request 1 office_db = Some pending_request
   \<and> fst (set_status 1 (Some 1) APPROVED None 30 office_db)
       = Inr (pending_request\<lparr>req_status := APPROVED, updated_at := 30\<rparr>)
   \<and> fst (set_status 1 (Some 1) PENDING_MANAGER (Some ''reopened'') 31
            (snd (set_status 1 (Some 1) APPROVED None 30 office_db)))
       = Inr (pending_request\<lparr>req_status := PENDING_MANAGER, updated_at := 31\<rparr>)
   \<and> map (\<lambda>h. (from_status h, to_status h))
        (history (snd (set_status 1 (Some 1) PENDING_MANAGER (Some ''reopened'') 31
            (snd (set_status 1 (Some 1) APPROVED None 30 office_db)))))
       = [(None, PENDING_MANAGER), (Some PENDING_MANAGER, APPROVED),
          (Some APPROVED, PENDING_MANAGER)]
   \<and> get_request 9 office_db = None
   \<and> set_status 9 (Some 1) APPROVED None 30 office_db = (Inl NoResultFound, office_db)"
proof -
  have a: "get_request 1 office_db = Some pending_request"
    by (simp add: get_request_def example_defs)
  from set_status_records_any_transition[of 1 office_db "Some 1" APPROVED None 30] a
  obtain db1 where s1: "set_status 1 (Some 1) APPROVED None 30 office_db
        = (Inr (pending_request\<lparr>req_status := APPROVED, updated_at := 30\<rparr>), db1)"
    and g1: "get_request 1 db1 = Some (pending_request\<lparr>req_status := APPROVED, updated_at := 30\<rparr>)"
    by blast
  have b: "fst (set_status 1 (Some 1) APPROVED None 30 office_db)
       = Inr (pending_request\<lparr>req_status := APPROVED, updated_at := 30\<rparr>)"
    using s1 by simp
  have db1: "snd (set_status 1 (Some 1) APPROVED None 30 office_db) = db1" using s1 by simp
  from set_status_records_any_transition[of 1 db1 "Some 1" PENDING_MANAGER "Some ''reopened''" 31] g1
  have c: "fst (set_status 1 (Some 1) PENDING_MANAGER (Some ''reopened'') 31
            (snd (set_status 1 (Some 1) APPROVED None 30 office_db)))
       = Inr (pending_request\<lparr>req_status := PENDING_MANAGER, updated_at := 31\<rparr>)"
    unfolding db1 by auto
  have d: "map (\<lambda>h. (from_status h, to_status h))
        (history (snd (set_status 1 (Some 1) PENDING_MANAGER (Some ''reopened'') 31
            (snd (set_status 1 (Some 1) APPROVED None 30 office_db)))))
       = [(None, PENDING_MANAGER), (Some PENDING_MANAGER, APPROVED),
          (Some APPROVED, PENDING_MANAGER)]"
    by (simp add: set_status_def get_request_def flush_request_def request_log_def Let_def
          example_defs)
  have e: "get_request 9 office_db = None" by (simp add: get_request_def example_defs)
  from set_status_records_any_transition[of 9 office_db "Some 1" APPROVED None 30] e
  have f: "set_status 9 (Some 1) APPROVED None 30 office_db = (Inl NoResultFound, office_db)"
    by blast
  from a b c d e f show ?thesis by (intro conjI)
qed

text \<open>
  C10. For a request that exists, \<open>set_approver\<close> returns and stores the request with the
  approver set; \<open>updated_at\<close> is either what it was or the current time, and every other
  field (status, amount, final card, requester and the rest) is what it was. No other
  request changes, and the status history, the cards and the inventory log are the same:
  the call appends no history row. For a request that does not exist it raises
  \<open>NoResultFound\<close> and changes nothing. The three other operations that change a request,
  \<open>create_request\<close>, \<open>set_status\<close> and \<open>attach_card\<close>, each append one history row
  whenever they succeed.
\<close>

theorem set_approver_frame:
  "(\<forall>request. get_request rid db = Some request \<longrightarrow>
      (\<exists>request' db'. set_approver rid approver now db = (Inr request', db')
         \<and> approver_id request' = Some approver
         \<and> (updated_at request' = updated_at request \<or> updated_at request' = now)
         \<and> request'\<lparr>approver_id := None, updated_at := 0\<rparr>
              = request\<lparr>approver_id := None, updated_at := 0\<rparr>
         \<and> req_status request' = req_status request \<and> req_amount request' = req_amount request
         \<and> final_card_id request' = final_card_id request
         \<and> requester_id request' = requester_id request
         \<and> get_request rid db' = Some request'
         \<and> (\<forall>other. other \<noteq> rid \<longrightarrow> get_request other db' = get_request other db)
         \<and> history db' = history db \<and> cards db' = cards db \<and> card_logs db' = card_logs db))
   \<and> (get_request rid db = None \<longrightarrow>
        set_approver rid approver now db = (Inl NoResultFound, db))
   \<and> (\<forall>r d. create_request requester responsible amount rtype status memo ctype t db = (Inr r, d)
          \<longrightarrow> length (history d) = Suc (length (history db)))
   \<and> (\<forall>r d. set_status rid' actor new_status memo' t' db = (Inr r, d)
          \<longrightarrow> length (history d) = Suc (length (history db)))
   \<and> (\<forall>r d. attach_card rid'' cid actor' t'' db = (Inr r, d)
          \<longrightarrow> length (history d) = Suc (length (history db)))"
proof -
  have A: "\<forall>request. get_request rid db = Some request \<longrightarrow>
      (\<exists>request' db'. set_approver rid approver now db = (Inr request', db')
         \<and> approver_id request' = Some approver
         \<and> (updated_at request' = updated_at request \<or> updated_at request' = now)
         \<and> request'\<lparr>approver_id := None, updated_at := 0\<rparr>
              = request\<lparr>approver_id := None, updated_at := 0\<rparr>
         \<and> req_status request' = req_status request \<and> req_amount request' = req_amount request
         \<and> final_card_id request' = final_card_id request
         \<and> requester_id request' = requester_id request
         \<and> get_request rid db' = Some request'
         \<and> (\<forall>other. other \<noteq> rid \<longrightarrow> get_request other db' = get_request other db)
         \<and> history db' = history db \<and> cards db' = cards db \<and> card_logs db' = card_logs db)"
  proof (intro allI impI)
    fix request assume found: "get_request rid db = Some request"
    have k: "req_id request = rid"
      using found find_key_Some[of req_id rid "requests db" request] by (simp add: get_request_def)
    let ?r = "if approver_id request = Some approver then request
              else request\<lparr>approver_id := Some approver, updated_at := now\<rparr>"
    have id: "req_id ?r = rid" using k by simp
    have run: "set_approver rid approver now db = (Inr ?r, flush_request ?r db)"
      using found by (simp add: set_approver_def Let_def)
    have p1: "approver_id ?r = Some approver" by simp
    have p2: "updated_at ?r = updated_at request \<or> updated_at ?r = now" by simp
    have p3: "?r\<lparr>approver_id := None, updated_at := 0\<rparr>
              = request\<lparr>approver_id := None, updated_at := 0\<rparr>" by simp
    have p4: "req_status ?r = req_status request" "req_amount ?r = req_amount request"
      "final_card_id ?r = final_card_id request" "requester_id ?r = requester_id request"
      by simp_all
    have g1: "get_request rid (flush_request ?r db) = Some ?r"
      using get_request_after_flush[OF found id] .
    have g2: "\<forall>other. other \<noteq> rid \<longrightarrow>
                get_request other (flush_request ?r db) = get_request other db"
      using get_request_other_after_flush[of _ rid ?r db] id by blast
    have fr: "history (flush_request ?r db) = history db" "cards (flush_request ?r db) = cards db"
      "card_logs (flush_request ?r db) = card_logs db"
      by (simp_all add: flush_request_def)
    show "\<exists>request' db'. set_approver rid approver now db = (Inr request', db')
         \<and> approver_id request' = Some approver
         \<and> (updated_at request' = updated_at request \<or> updated_at request' = now)
         \<and> request'\<lparr>approver_id := None, updated_at := 0\<rparr>
              = request\<lparr>approver_id := None, updated_at := 0\<rparr>
         \<and> req_status request' = req_status request \<and> req_amount request' = req_amount request
         \<and> final_card_id request' = final_card_id request
         \<and> requester_id request' = requester_id request
         \<and> get_request rid db' = Some request'
         \<and> (\<forall>other. other \<noteq> rid \<longrightarrow> get_request other db' = get_request other db)
         \<and> history db' = history db \<and> cards db' = cards db \<and> card_logs db' = card_logs db"
      apply (rule exI[of _ ?r])
      apply (rule exI[of _ "flush_request ?r db"])
      using run p1 p2 p3 p4 g1 g2 fr by (intro conjI)
  qed
  have B: "get_request rid db = None \<longrightarrow>
        set_approver rid approver now db = (Inl NoResultFound, db)"
    by (simp add: set_approver_def)
  have C: "\<forall>r d. create_request requester responsible amount rtype status memo ctype t db = (Inr r, d)
          \<longrightarrow> length (history d) = Suc (length (history db))"
    using create_request_one_row by blast
  have D: "\<forall>r d. set_status rid' actor new_status memo' t' db = (Inr r, d)
          \<longrightarrow> length (history d) = Suc (length (history db))"
    using set_status_one_row by blast
  have E: "\<forall>r d. attach_card rid'' cid actor' t'' db = (Inr r, d)
          \<longrightarrow> length (history d) = Suc (length (history db))"
    using attach_card_one_row by blast
  from A B C D E show ?thesis by (intro conjI)
qed

theorem set_approver_frame_witness:
  "get_request 1 office_db = Some pending_request
   \<and> set_approver 1 2 30 office_db =
       (Inr (pending_request\<lparr>approver_id := Some 2, updated_at := 30\<rparr>),
        office_db\<lparr>requests := [pending_request\<lparr>approver_id := Some 2, updated_at := 30\<rparr>]\<rparr>)
   \<and> history (snd (set_approver 1 2 30 office_db)) = history office_db
   \<and> length (history (snd (set_status 1 (Some 2) APPROVED None 30 office_db))) = 2
   \<and> length (history (snd (attach_card 1 1 (Some 2) 30 office_db))) = 2
   \<and> length (history (snd (create_request 3 (Some 2) 1000 FIXED PENDING_MANAGER None None 30 office_db))) = 2
   \<and> get_request 9 office_db = None
   \<and> set_approver 9 2 30 office_db = (Inl NoResultFound, office_db)"
proof -
  note T = set_approver_frame[where rid = 1 and db = office_db and approver = 2 and now = 30
      and rid' = 1 and actor = "Some 2" and new_status = APPROVED and memo' = None and t' = 30
      and rid'' = 1 and cid = 1 and actor' = "Some 2" and t'' = 30
      and requester = 3 and responsible = "Some 2" and amount = 1000 and rtype = FIXED
      and status = PENDING_MANAGER and memo = None and ctype = None and t = 30]
  have a: "get_request 1 office_db = Some pending_request"
    by (simp add: get_request_def example_defs)
  have b: "set_approver 1 2 30 office_db =
       (Inr (pending_request\<lparr>approver_id := Some 2, updated_at := 30\<rparr>),
        office_db\<lparr>requests := [pending_request\<lparr>approver_id := Some 2, updated_at := 30\<rparr>]\<rparr>)"
    by (simp add: set_approver_def get_request_def flush_request_def Let_def example_defs)
  from T a have c: "history (snd (set_approver 1 2 30 office_db)) = history office_db"
    by auto
  have len: "length (history office_db) = 1" by (simp add: example_defs)
  have s: "\<exists>r. fst (set_status 1 (Some 2) APPROVED None 30 office_db) = Inr r"
    by (simp add: set_status_def get_request_def Let_def example_defs)
  have at: "\<exists>r. fst (attach_card 1 1 (Some 2) 30 office_db) = Inr r"
    by (simp add: attach_card_def get_request_def Let_def example_defs)
  have cr: "\<exists>r. fst (create_request 3 (Some 2) 1000 FIXED PENDING_MANAGER None None 30 office_db) = Inr r"
    by (simp add: create_request_def ck_recharge_amount_positive_def fits_integer_def
          integer_min_def integer_max_def Let_def)
  from T s len have d: "length (history (snd (set_status 1 (Some 2) APPROVED None 30 office_db))) = 2"
    by (metis prod.collapse Suc_1)
  from T at len have e: "length (history (snd (attach_card 1 1 (Some 2) 30 office_db))) = 2"
    by (metis prod.collapse Suc_1)
  from T cr len
  have f: "length (history (snd (create_request 3 (Some 2) 1000 FIXED PENDING_MANAGER None None 30 office_db))) = 2"
    by (metis prod.collapse Suc_1)
  have g: "get_request 9 office_db = None" by (simp add: get_request_def example_defs)
  have h: "set_approver 9 2 30 office_db = (Inl NoResultFound, office_db)"
    using set_approver_frame[where rid = 9 and db = office_db and approver = 2 and now = 30] g
    by blast
  from a b c d e f g h show ?thesis by (intro conjI)
qed

section \<open>The callers\<close>

text \<open>
  C6. Routing in \<open>_process_request\<close>, for an identified user. Whenever the handler
  creates a request, whatever the form holds, the requester is the user and the routing
  follows the role: for role USER the user has a manager, who is the responsible, and the
  status is PENDING_MANAGER; for role RESPONSIBLE the status is PENDING_ACCOUNTING and the
  responsible is the requester; for role ADMIN the status is PENDING_ACCOUNTING and there
  is no responsible. A user with role USER and no manager never gets a request, and the
  database is untouched. For a positive amount that the integer column holds, the request
  is created in each of the three routed cases: it is appended with a fresh id, together
  with its first history row, which has no \<open>from_status\<close>. For an amount beyond the column
  the insert raises \<open>OverflowError\<close> and nothing is persisted.
\<close>

theorem process_request_routing:
  "(form_amount data = Some amount \<and> 0 < amount \<and> amount \<le> integer_max \<longrightarrow>
         (role user = USER \<and> manager_id user = None \<longrightarrow>
            process_request (Some user) data now db = (NoResponsibleDefined, db))
       \<and> (\<forall>m. role user = USER \<and> manager_id user = Some m \<longrightarrow>
            (\<exists>request.
               process_request (Some user) data now db =
                 (RequestCreated request,
                  db\<lparr>requests := requests db @ [request],
                     history := history db @
                       [\<lparr>hist_id = fresh_id (map hist_id (history db)),
                         hist_request_id = req_id request, hist_actor_id = Some (user_id user),
                         from_status = None, to_status = PENDING_MANAGER, hist_note = None,
                         hist_created_at = now\<rparr>]\<rparr>)
               \<and> requester_id request = user_id user \<and> responsible_id request = Some m
               \<and> req_status request = PENDING_MANAGER \<and> req_amount request = amount
               \<and> req_id request \<notin> req_id ` set (requests db)))
       \<and> (role user = RESPONSIBLE \<longrightarrow>
            (\<exists>request.
               process_request (Some user) data now db =
                 (RequestCreated request,
                  db\<lparr>requests := requests db @ [request],
                     history := history db @
                       [\<lparr>hist_id = fresh_id (map hist_id (history db)),
                         hist_request_id = req_id request, hist_actor_id = Some (user_id user),
                         from_status = None, to_status = PENDING_ACCOUNTING, hist_note = None,
                         hist_created_at = now\<rparr>]\<rparr>)
               \<and> requester_id request = user_id user \<and> responsible_id request = Some (user_id user)
               \<and> req_status request = PENDING_ACCOUNTING \<and> req_amount request = amount
               \<and> req_id request \<notin> req_id ` set (requests db)))
       \<and> (role user = ADMIN \<longrightarrow>
            (\<exists>request.
               process_request (Some user) data now db =
                 (RequestCreated request,
                  db\<lparr>requests := requests db @ [request],
                     history := history db @
                       [\<lparr>hist_id = fresh_id (map hist_id (history db)),
                         hist_request_id = req_id request, hist_actor_id = Some (user_id user),
                         from_status = None, to_status = PENDING_ACCOUNTING, hist_note = None,
                         hist_created_at = now\<rparr>]\<rparr>)
               \<and> requester_id request = user_id user \<and> responsible_id request = None
               \<and> req_status request = PENDING_ACCOUNTING \<and> req_amount request = amount
               \<and> req_id request \<notin> req_id ` set (requests db))))
   \<and> (form_amount data = Some amount \<and> integer_max < amount
        \<and> \<not> (role user = USER \<and> manager_id user = None) \<longrightarrow>
         process_request (Some user) data now db = (ProcessRaised OverflowError, db))
   \<and> (role user = USER \<and> manager_id user = None \<longrightarrow>
         snd (process_request (Some user) data now db) = db
         \<and> (\<forall>request. fst (process_request (Some user) data now db) \<noteq> RequestCreated request))
   \<and> (\<forall>request db'. process_request (Some user) data now db = (RequestCreated request, db') \<longrightarrow>
         requester_id request = user_id user
         \<and> (role user = USER \<longrightarrow>
              manager_id user \<noteq> None \<and> responsible_id request = manager_id user
              \<and> req_status request = PENDING_MANAGER)
         \<and> (role user = RESPONSIBLE \<longrightarrow>
              responsible_id request = Some (user_id user)
              \<and> req_status request = PENDING_ACCOUNTING)
         \<and> (role user = ADMIN \<longrightarrow>
              responsible_id request = None \<and> req_status request = PENDING_ACCOUNTING))"
proof -
  have fresh: "fresh_id (map req_id (requests db)) \<notin> req_id ` set (requests db)"
    using fresh_id_gt[of "fresh_id (map req_id (requests db))" "map req_id (requests db)"] by auto
  have P1: "(form_amount data = Some amount \<and> 0 < amount \<and> amount \<le> integer_max \<longrightarrow>
         (role user = USER \<and> manager_id user = None \<longrightarrow>
            process_request (Some user) data now db = (NoResponsibleDefined, db))
       \<and> (\<forall>m. role user = USER \<and> manager_id user = Some m \<longrightarrow>
            (\<exists>request.
               process_request (Some user) data now db =
                 (RequestCreated request,
                  db\<lparr>requests := requests db @ [request],
                     history := history db @
                       [\<lparr>hist_id = fresh_id (map hist_id (history db)),
                         hist_request_id = req_id request, hist_actor_id = Some (user_id user),
                         from_status = None, to_status = PENDING_MANAGER, hist_note = None,
                         hist_created_at = now\<rparr>]\<rparr>)
               \<and> requester_id request = user_id user \<and> responsible_id request = Some m
               \<and> req_status request = PENDING_MANAGER \<and> req_amount request = amount
               \<and> req_id request \<notin> req_id ` set (requests db)))
       \<and> (role user = RESPONSIBLE \<longrightarrow>
            (\<exists>request.
               process_request (Some user) data now db =
                 (RequestCreated request,
                  db\<lparr>requests := requests db @ [request],
                     history := history db @
                       [\<lparr>hist_id = fresh_id (map hist_id (history db)),
                         hist_request_id = req_id request, hist_actor_id = Some (user_id user),
                         from_status = None, to_status = PENDING_ACCOUNTING, hist_note = None,
                         hist_created_at = now\<rparr>]\<rparr>)
               \<and> requester_id request = user_id user \<and> responsible_id request = Some (user_id user)
               \<and> req_status request = PENDING_ACCOUNTING \<and> req_amount request = amount
               \<and> req_id request \<notin> req_id ` set (requests db)))
       \<and> (role user = ADMIN \<longrightarrow>
            (\<exists>request.
               process_request (Some user) data now db =
                 (RequestCreated request,
                  db\<lparr>requests := requests db @ [request],
                     history := history db @
                       [\<lparr>hist_id = fresh_id (map hist_id (history db)),
                         hist_request_id = req_id request, hist_actor_id = Some (user_id user),
                         from_status = None, to_status = PENDING_ACCOUNTING, hist_note = None,
                         hist_created_at = now\<rparr>]\<rparr>)
               \<and> requester_id request = user_id user \<and> responsible_id request = None
               \<and> req_status request = PENDING_ACCOUNTING \<and> req_amount request = amount
               \<and> req_id request \<notin> req_id ` set (requests db))))"
  proof (intro impI)
    assume pre: "form_amount data = Some amount \<and> 0 < amount \<and> amount \<le> integer_max"
    then have fit: "fits_integer amount" by (simp add: fits_integer_def integer_min_def)
    have A: "(role user = USER \<and> manager_id user = None \<longrightarrow>
            process_request (Some user) data now db = (NoResponsibleDefined, db))"
      using pre by (simp add: process_request_def Let_def)
    have B: "(\<forall>m. role user = USER \<and> manager_id user = Some m \<longrightarrow>
            (\<exists>request.
               process_request (Some user) data now db =
                 (RequestCreated request,
                  db\<lparr>requests := requests db @ [request],
                     history := history db @
                       [\<lparr>hist_id = fresh_id (map hist_id (history db)),
                         hist_request_id = req_id request, hist_actor_id = Some (user_id user),
                         from_status = None, to_status = PENDING_MANAGER, hist_note = None,
                         hist_created_at = now\<rparr>]\<rparr>)
               \<and> requester_id request = user_id user \<and> responsible_id request = Some m
               \<and> req_status request = PENDING_MANAGER \<and> req_amount request = amount
               \<and> req_id request \<notin> req_id ` set (requests db)))"
      using pre fit fresh
      by (simp add: process_request_def submit_request_def create_request_def request_log_def
          ck_recharge_amount_positive_def Let_def)
    have C: "(role user = RESPONSIBLE \<longrightarrow>
            (\<exists>request.
               process_request (Some user) data now db =
                 (RequestCreated request,
                  db\<lparr>requests := requests db @ [request],
                     history := history db @
                       [\<lparr>hist_id = fresh_id (map hist_id (history db)),
                         hist_request_id = req_id request, hist_actor_id = Some (user_id user),
                         from_status = None, to_status = PENDING_ACCOUNTING, hist_note = None,
                         hist_created_at = now\<rparr>]\<rparr>)
               \<and> requester_id request = user_id user \<and> responsible_id request = Some (user_id user)
               \<and> req_status request = PENDING_ACCOUNTING \<and> req_amount request = amount
               \<and> req_id request \<notin> req_id ` set (requests db)))"
      using pre fit fresh
      by (simp add: process_request_def submit_request_def create_request_def request_log_def
          ck_recharge_amount_positive_def Let_def)
    have D: "(role user = ADMIN \<longrightarrow>
            (\<exists>request.
               process_request (Some user) data now db =
                 (RequestCreated request,
                  db\<lparr>requests := requests db @ [request],
                     history := history db @
                       [\<lparr>hist_id = fresh_id (map hist_id (history db)),
                         hist_request_id = req_id request, hist_actor_id = Some (user_id user),
                         from_status = None, to_status = PENDING_ACCOUNTING, hist_note = None,
                         hist_created_at = now\<rparr>]\<rparr>)
               \<and> requester_id request = user_id user \<and> responsible_id request = None
               \<and> req_status request = PENDING_ACCOUNTING \<and> req_amount request = amount
               \<and> req_id request \<notin> req_id ` set (requests db)))"
      using pre fit fresh
      by (simp add: process_request_def submit_request_def create_request_def request_log_def
          ck_recharge_amount_positive_def Let_def)
    from A B C D show "(role user = USER \<and> manager_id user = None \<longrightarrow>
            process_request (Some user) data now db = (NoResponsibleDefined, db))
       \<and> (\<forall>m. role user = USER \<and> manager_id user = Some m \<longrightarrow>
            (\<exists>request.
               process_request (Some user) data now db =
                 (RequestCreated request,
                  db\<lparr>requests := requests db @ [request],
                     history := history db @
                       [\<lparr>hist_id = fresh_id (map hist_id (history db)),
                         hist_request_id = req_id request, hist_actor_id = Some (user_id user),
                         from_status = None, to_status = PENDING_MANAGER, hist_note = None,
                         hist_created_at = now\<rparr>]\<rparr>)
               \<and> requester_id request = user_id user \<and> responsible_id request = Some m
               \<and> req_status request = PENDING_MANAGER \<and> req_amount request = amount
               \<and> req_id request \<notin> req_id ` set (requests db)))
       \<and> (role user = RESPONSIBLE \<longrightarrow>
            (\<exists>request.
               process_request (Some user) data now db =
                 (RequestCreated request,
                  db\<lparr>requests := requests db @ [request],
                     history := history db @
                       [\<lparr>hist_id = fresh_id (map hist_id (history db)),
                         hist_request_id = req_id request, hist_actor_id = Some (user_id user),
                         from_status = None, to_status = PENDING_ACCOUNTING, hist_note = None,
                         hist_created_at = now\<rparr>]\<rparr>)
               \<and> requester_id request = user_id user \<and> responsible_id request = Some (user_id user)
               \<and> req_status request = PENDING_ACCOUNTING \<and> req_amount request = amount
               \<and> req_id request \<notin> req_id ` set (requests db)))
       \<and> (role user = ADMIN \<longrightarrow>
            (\<exists>request.
               process_request (Some user) data now db =
                 (RequestCreated request,
                  db\<lparr>requests := requests db @ [request],
                     history := history db @
                       [\<lparr>hist_id = fresh_id (map hist_id (history db)),
                         hist_request_id = req_id request, hist_actor_id = Some (user_id user),
                         from_status = None, to_status = PENDING_ACCOUNTING, hist_note = None,
                         hist_created_at = now\<rparr>]\<rparr>)
               \<and> requester_id request = user_id user \<and> responsible_id request = None
               \<and> req_status request = PENDING_ACCOUNTING \<and> req_amount request = amount
               \<and> req_id request \<notin> req_id ` set (requests db)))"
      by (intro conjI)
  qed
  have P2: "(form_amount data = Some amount \<and> integer_max < amount
        \<and> \<not> (role user = USER \<and> manager_id user = None) \<longrightarrow>
         process_request (Some user) data now db = (ProcessRaised OverflowError, db))"
  proof (intro impI)
    assume h: "form_amount data = Some amount \<and> integer_max < amount
        \<and> \<not> (role user = USER \<and> manager_id user = None)"
    then have pos: "0 < amount" and nofit: "\<not> fits_integer amount"
      by (simp_all add: fits_integer_def integer_max_def)
    show "process_request (Some user) data now db = (ProcessRaised OverflowError, db)"
    proof (cases "role user")
      case USER
      with h obtain m where "manager_id user = Some m" by auto
      with USER h pos nofit show ?thesis
        by (simp add: process_request_def submit_request_def create_request_def Let_def)
    next
      case RESPONSIBLE
      with h pos nofit show ?thesis
        by (simp add: process_request_def submit_request_def create_request_def Let_def)
    next
      case ADMIN
      with h pos nofit show ?thesis
        by (simp add: process_request_def submit_request_def create_request_def Let_def)
    qed
  qed
  have P3: "(role user = USER \<and> manager_id user = None \<longrightarrow>
         snd (process_request (Some user) data now db) = db
         \<and> (\<forall>request. fst (process_request (Some user) data now db) \<noteq> RequestCreated request))"
    by (simp add: process_request_def Let_def)
  have P4: "(\<forall>request db'. process_request (Some user) data now db = (RequestCreated request, db') \<longrightarrow>
         requester_id request = user_id user
         \<and> (role user = USER \<longrightarrow>
              manager_id user \<noteq> None \<and> responsible_id request = manager_id user
              \<and> req_status request = PENDING_MANAGER)
         \<and> (role user = RESPONSIBLE \<longrightarrow>
              responsible_id request = Some (user_id user)
              \<and> req_status request = PENDING_ACCOUNTING)
         \<and> (role user = ADMIN \<longrightarrow>
              responsible_id request = None \<and> req_status request = PENDING_ACCOUNTING))"
  proof (intro allI impI)
    fix request db'
    assume run: "process_request (Some user) data now db = (RequestCreated request, db')"
    show "requester_id request = user_id user
         \<and> (role user = USER \<longrightarrow>
              manager_id user \<noteq> None \<and> responsible_id request = manager_id user
              \<and> req_status request = PENDING_MANAGER)
         \<and> (role user = RESPONSIBLE \<longrightarrow>
              responsible_id request = Some (user_id user)
              \<and> req_status request = PENDING_ACCOUNTING)
         \<and> (role user = ADMIN \<longrightarrow>
              responsible_id request = None \<and> req_status request = PENDING_ACCOUNTING)"
    proof (cases "role user")
      case USER
      with run show ?thesis
        by (auto simp: process_request_def submit_request_def create_request_def Let_def
              split: option.splits if_splits)
    next
      case RESPONSIBLE
      with run show ?thesis
        by (auto simp: process_request_def submit_request_def create_request_def Let_def
              split: option.splits if_splits)
    next
      case ADMIN
      with run show ?thesis
        by (auto simp: process_request_def submit_request_def create_request_def Let_def
              split: option.splits if_splits)
    qed
  qed
  from P1 P2 P3 P4 show ?thesis by (intro conjI)
qed

theorem process_request_routing_witness:
  "(5000::int) \<le> integer_max \<and> role member_user = USER \<and> manager_id member_user = Some 2
   \<and> (\<exists>request db'.
         process_request (Some member_user)
           \<lparr>form_amount = Some 5000, form_origin = None, form_request_type = None,
             form_card_type = None\<rparr> 30 office_db = (RequestCreated request, db')
         \<and> responsible_id request = Some 2 \<and> req_status request = PENDING_MANAGER)
   \<and> process_request (Some (member_user\<lparr>manager_id := None\<rparr>))
         \<lparr>form_amount = Some 5000, form_origin = None, form_request_type = None,
           form_card_type = None\<rparr> 30 office_db = (NoResponsibleDefined, office_db)
   \<and> role manager_user = RESPONSIBLE
   \<and> (\<exists>request db'.
         process_request (Some manager_user)
           \<lparr>form_amount = Some 5000, form_origin = None, form_request_type = None,
             form_card_type = None\<rparr> 30 office_db = (RequestCreated request, db')
         \<and> responsible_id request = Some 2 \<and> req_status request = PENDING_ACCOUNTING)
   \<and> role admin_user = ADMIN
   \<and> (\<exists>request db'.
         process_request (Some admin_user)
           \<lparr>form_amount = Some 5000, form_origin = Some ''admin'', form_request_type = None,
             form_card_type = Some ASIA\<rparr> 30 office_db = (RequestCreated request, db')
         \<and> responsible_id request = None \<and> req_status request = PENDING_ACCOUNTING)
   \<and> integer_max < 9223372036854775808
   \<and> process_request (Some member_user)
         \<lparr>form_amount = Some 9223372036854775808, form_origin = None,
           form_request_type = Some CUSTOM, form_card_type = None\<rparr> 30 office_db
       = (ProcessRaised OverflowError, office_db)"
proof -
  let ?f = "\<lparr>form_amount = Some 5000, form_origin = None, form_request_type = None,
             form_card_type = None\<rparr>"
  let ?g = "\<lparr>form_amount = Some 5000, form_origin = Some ''admin'', form_request_type = None,
             form_card_type = Some ASIA\<rparr>"
  let ?h = "\<lparr>form_amount = Some 9223372036854775808, form_origin = None,
             form_request_type = Some CUSTOM, form_card_type = None\<rparr>"
  have mx: "(5000::int) \<le> integer_max" by (simp add: integer_max_def)
  have big: "integer_max < 9223372036854775808" by (simp add: integer_max_def)
  have am: "form_amount ?f = Some 5000 \<and> (0::int) < 5000 \<and> (5000::int) \<le> integer_max"
    "form_amount ?g = Some 5000 \<and> (0::int) < 5000 \<and> (5000::int) \<le> integer_max"
    using mx by simp_all
  have u: "role member_user = USER" "manager_id member_user = Some 2"
    by (simp_all add: example_defs)
  have u0: "role (member_user\<lparr>manager_id := None\<rparr>) = USER
            \<and> manager_id (member_user\<lparr>manager_id := None\<rparr>) = None"
    by (simp add: example_defs)
  have m: "role manager_user = RESPONSIBLE" "user_id manager_user = 2"
    by (simp_all add: example_defs)
  have a: "role admin_user = ADMIN" by (simp add: example_defs)
  from process_request_routing[where data = ?f and amount = 5000 and user = member_user
      and now = 30 and db = office_db] am(1) u
  have c1: "\<exists>request db'.
         process_request (Some member_user) ?f 30 office_db = (RequestCreated request, db')
         \<and> responsible_id request = Some 2 \<and> req_status request = PENDING_MANAGER"
    by blast
  from process_request_routing[where data = ?f and amount = 5000
      and user = "member_user\<lparr>manager_id := None\<rparr>" and now = 30 and db = office_db] am(1) u0
  have c2: "process_request (Some (member_user\<lparr>manager_id := None\<rparr>)) ?f 30 office_db
              = (NoResponsibleDefined, office_db)"
    by blast
  from process_request_routing[where data = ?f and amount = 5000 and user = manager_user
      and now = 30 and db = office_db] am(1) m
  have c3: "\<exists>request db'.
         process_request (Some manager_user) ?f 30 office_db = (RequestCreated request, db')
         \<and> responsible_id request = Some 2 \<and> req_status request = PENDING_ACCOUNTING"
    by metis
  from process_request_routing[where data = ?g and amount = 5000 and user = admin_user
      and now = 30 and db = office_db] am(2) a
  have c4: "\<exists>request db'.
         process_request (Some admin_user) ?g 30 office_db = (RequestCreated request, db')
         \<and> responsible_id request = None \<and> req_status request = PENDING_ACCOUNTING"
    by blast
  have hm: "form_amount ?h = Some 9223372036854775808" by simp
  have nm: "\<not> (role member_user = USER \<and> manager_id member_user = None)"
    using u by simp
  from process_request_routing[where data = ?h and amount = 9223372036854775808
      and user = member_user and now = 30 and db = office_db] hm big nm
  have c5: "process_request (Some member_user) ?h 30 office_db
              = (ProcessRaised OverflowError, office_db)"
    by blast
  from mx u c1 c2 m(1) c3 a c4 big c5 show ?thesis by (intro conjI)
qed

text \<open>
  C2, on the code. The manager's direct send (\<open>handle_manager_decision\<close>, action
  \<open>send\<close>) reserves card 1 for request 1; when the delivery then returns false (a chat
  that refuses every call), or the requester has no Telegram account, the handler replies
  and returns without \<open>restore_card\<close>: card 1 stays RESERVED, the log has a RESERVE row
  and no RESTORE row, and one card less is available. The two direct-send handlers, on the
  same inventory and the same failed delivery, restore the card: it is AVAILABLE again and
  the log ends with RESTORE.
\<close>

theorem manager_direct_send_failed_delivery_leaves_card_reserved:
  "get_card 1 office_db = Some card_a \<and> card_status card_a = AVAILABLE
   \<and> fst (handle_manager_decision ''send'' 1 (Some manager_user) (Some member_user) chat_refusing {} 30
            office_db) = CardSendFailed
   \<and> get_card 1 (snd (handle_manager_decision ''send'' 1 (Some manager_user) (Some member_user)
            chat_refusing {} 30 office_db)) = Some (card_a\<lparr>card_status := RESERVED\<rparr>)
   \<and> map log_action (card_logs (snd (handle_manager_decision ''send'' 1 (Some manager_user)
            (Some member_user) chat_refusing {} 30 office_db))) = [ADD, ADD, ADD, RESERVE]
   \<and> count_available ASIA 5000 (snd (handle_manager_decision ''send'' 1 (Some manager_user)
            (Some member_user) chat_refusing {} 30 office_db)) = 1
   \<and> fst (handle_manager_decision ''send'' 1 (Some manager_user) None chat_open {} 30 office_db)
       = RequesterNotOnTelegram
   \<and> get_card 1 (snd (handle_manager_decision ''send'' 1 (Some manager_user) None chat_open {} 30
            office_db)) = Some (card_a\<lparr>card_status := RESERVED\<rparr>)
   \<and> fst (admin_send_card_amount (Some admin_user) member_user ASIA 5000 chat_refusing {} 30 office_db)
       = DeliveryFailed
   \<and> get_card 1 (snd (admin_send_card_amount (Some admin_user) member_user ASIA 5000 chat_refusing {} 30
            office_db)) = Some card_a
   \<and> map log_action (card_logs (snd (admin_send_card_amount (Some admin_user) member_user ASIA
            5000 chat_refusing {} 30 office_db))) = [ADD, ADD, ADD, RESERVE, RESTORE]
   \<and> fst (responsible_send_card_amount manager_user member_user ASIA 5000 chat_refusing {} 30 office_db)
       = DeliveryFailed
   \<and> get_card 1 (snd (responsible_send_card_amount manager_user member_user ASIA 5000 chat_refusing {} 30
            office_db)) = Some card_a"
proof -
  have g: "get_request 1 office_db = Some pending_request"
    by (simp add: get_request_def example_defs)
  have mgr: "user_id manager_user = 2" "can_approve_directly manager_user"
    "user_id admin_user = 1" "user_id member_user = 3"
    by (simp_all add: example_defs)
  have rq: "responsible_id pending_request = Some 2" "req_status pending_request = PENDING_MANAGER"
    "req_amount pending_request = 5000" "req_id pending_request = 1"
    by (simp_all add: example_defs)
  have a: "get_card 1 office_db = Some card_a" by (simp add: get_card_def example_defs)
  have b: "card_status card_a = AVAILABLE" by (simp add: example_defs)
  have m1: "handle_manager_decision ''send'' 1 (Some manager_user) (Some member_user) chat_refusing {} 30
              office_db
           = manager_direct_send manager_user pending_request (Some member_user) chat_refusing {} 30 office_db"
    using g mgr rq by (simp add: handle_manager_decision_def)
  have m2: "handle_manager_decision ''send'' 1 (Some manager_user) None chat_open {} 30 office_db
           = manager_direct_send manager_user pending_request None chat_open {} 30 office_db"
    using g mgr rq by (simp add: handle_manager_decision_def)
  let ?db4 = "office_db\<lparr>cards := [card_a\<lparr>card_status := RESERVED\<rparr>, card_b, card_c],
     card_logs := card_logs office_db @
        [\<lparr>log_id = 4, log_card_id = 1, log_actor_id = Some 2, log_action = RESERVE,
          log_note = None, log_created_at = 30\<rparr>],
     requests := [pending_request\<lparr>final_card_id := Some 1, updated_at := 30,
        approver_id := Some 2, req_status := APPROVED\<rparr>],
     history := history office_db @
        [\<lparr>hist_id = 2, hist_request_id = 1, hist_actor_id = Some 2,
          from_status = Some PENDING_MANAGER, to_status = PENDING_MANAGER,
          hist_note = Some ''Card assigned'', hist_created_at = 30\<rparr>,
         \<lparr>hist_id = 3, hist_request_id = 1, hist_actor_id = Some 2,
          from_status = Some PENDING_MANAGER, to_status = APPROVED,
          hist_note = None, hist_created_at = 30\<rparr>]\<rparr>"
  have d1: "manager_direct_send manager_user pending_request (Some member_user) chat_refusing {} 30 office_db
             = (CardSendFailed, ?db4)"
    by (simp add: manager_direct_send_def accounting_options_def count_available_def
          available_match_def take_first_available_def available_rows_def card_log_def
          flush_card_def attach_card_def set_approver_def set_status_def get_request_def
          flush_request_def request_log_def fresh_id_def no_telegram_def send_card_to_chat_def
          truthy_def Let_def example_defs)
  have d2: "manager_direct_send manager_user pending_request None chat_open {} 30 office_db
             = (RequesterNotOnTelegram, ?db4)"
    by (simp add: manager_direct_send_def accounting_options_def count_available_def
          available_match_def take_first_available_def available_rows_def card_log_def
          flush_card_def attach_card_def set_approver_def set_status_def get_request_def
          flush_request_def request_log_def fresh_id_def no_telegram_def send_card_to_chat_def
          truthy_def Let_def example_defs)
  have c4: "get_card 1 ?db4 = Some (card_a\<lparr>card_status := RESERVED\<rparr>)"
    by (simp add: get_card_def example_defs)
  have l4: "map log_action (card_logs ?db4) = [ADD, ADD, ADD, RESERVE]"
    by (simp add: example_defs)
  have n4: "count_available ASIA 5000 ?db4 = 1"
    by (simp add: count_available_def available_match_def example_defs)
  have s1: "admin_send_card_amount (Some admin_user) member_user ASIA 5000 chat_refusing {} 30 office_db
      = (DeliveryFailed,
         office_db\<lparr>cards := [card_a, card_b, card_c],
           card_logs := card_logs office_db @
            [\<lparr>log_id = 4, log_card_id = 1, log_actor_id = Some 1, log_action = RESERVE,
              log_note = None, log_created_at = 30\<rparr>,
             \<lparr>log_id = 5, log_card_id = 1, log_actor_id = Some 1, log_action = RESTORE,
              log_note = None, log_created_at = 30\<rparr>]\<rparr>)"
    by (simp add: admin_send_card_amount_def direct_send_def restore_card_def get_card_def
          take_first_available_def available_rows_def available_match_def send_card_to_chat_def
          truthy_def flush_card_def card_log_def fresh_id_def Let_def example_defs)
  have s2: "responsible_send_card_amount manager_user member_user ASIA 5000 chat_refusing {} 30 office_db
      = (DeliveryFailed,
         office_db\<lparr>cards := [card_a, card_b, card_c],
           card_logs := card_logs office_db @
            [\<lparr>log_id = 4, log_card_id = 1, log_actor_id = Some 2, log_action = RESERVE,
              log_note = None, log_created_at = 30\<rparr>,
             \<lparr>log_id = 5, log_card_id = 1, log_actor_id = Some 2, log_action = RESTORE,
              log_note = None, log_created_at = 30\<rparr>]\<rparr>)"
    by (simp add: responsible_send_card_amount_def direct_send_def restore_card_def get_card_def
          take_first_available_def available_rows_def available_match_def send_card_to_chat_def
          truthy_def flush_card_def card_log_def fresh_id_def Let_def example_defs)
  have e1: "get_card 1 (snd (admin_send_card_amount (Some admin_user) member_user ASIA 5000 chat_refusing
              {} 30 office_db)) = Some card_a"
    unfolding s1 by (simp add: get_card_def example_defs)
  have e2: "map log_action (card_logs (snd (admin_send_card_amount (Some admin_user) member_user
              ASIA 5000 chat_refusing {} 30 office_db))) = [ADD, ADD, ADD, RESERVE, RESTORE]"
    unfolding s1 by (simp add: example_defs)
  have e3: "get_card 1 (snd (responsible_send_card_amount manager_user member_user ASIA 5000 chat_refusing
              {} 30 office_db)) = Some card_a"
    unfolding s2 by (simp add: get_card_def example_defs)
  show ?thesis
    unfolding m1 m2 d1 d2
    using a b c4 l4 n4 s1 s2 e1 e2 e3 by simp
qed

text \<open>
  The delivery can also raise: in \<open>send_card_to_chat\<close> only \<open>TelegramBadRequest\<close> is
  caught around the photo sent by file id, and none of the three handlers calls it inside
  a \<open>try\<close>. When the chat has blocked the bot, the exception leaves the handler before
  any \<open>restore_card\<close>, in the direct-send handlers too, and card 1 stays RESERVED.
\<close>

lemma delivery_raises_before_restore:
  "send_card_to_chat (card_a\<lparr>card_status := RESERVED\<rparr>) chat_blocked = Inl TelegramAPIError
   \<and> fst (admin_send_card_amount (Some admin_user) member_user ASIA 5000 chat_blocked {} 30
            office_db) = SendRaised TelegramAPIError
   \<and> get_card 1 (snd (admin_send_card_amount (Some admin_user) member_user ASIA 5000 chat_blocked
            {} 30 office_db)) = Some (card_a\<lparr>card_status := RESERVED\<rparr>)
   \<and> fst (responsible_send_card_amount manager_user member_user ASIA 5000 chat_blocked {} 30
            office_db) = SendRaised TelegramAPIError
   \<and> get_card 1 (snd (responsible_send_card_amount manager_user member_user ASIA 5000
            chat_blocked {} 30 office_db)) = Some (card_a\<lparr>card_status := RESERVED\<rparr>)
   \<and> fst (handle_manager_decision ''send'' 1 (Some manager_user) (Some member_user) chat_blocked
            {} 30 office_db) = ManagerRaised TelegramAPIError
   \<and> get_card 1 (snd (handle_manager_decision ''send'' 1 (Some manager_user) (Some member_user)
            chat_blocked {} 30 office_db)) = Some (card_a\<lparr>card_status := RESERVED\<rparr>)"
  by (simp add: admin_send_card_amount_def responsible_send_card_amount_def direct_send_def
        handle_manager_decision_def manager_direct_send_def accounting_options_def
        count_available_def take_first_available_def available_rows_def available_match_def
        send_card_to_chat_def truthy_def attach_card_def set_approver_def set_status_def
        get_request_def flush_request_def request_log_def no_telegram_def get_card_def
        flush_card_def card_log_def fresh_id_def Let_def example_defs)

end
